theory Spec2Isabelle
  imports Main "HOL-Library.Word"
begin

unbundle bit_operations_syntax

section \<open>Data model of \<^verbatim>\<open>txgbe_sysfs.c\<close>\<close>

text \<open>
  The file exposes the thermal sensor of a txgbe adapter as three read-only sysfs
  attribute files on the adapter's PCI device and registers a hwmon class device.
  The model is the file as compiled with \<^verbatim>\<open>TXGBE_SYSFS\<close> and \<^verbatim>\<open>TXGBE_HWMON\<close> defined.
  Everything the file calls but does not define (the HAL operations behind
  \<^verbatim>\<open>TCALL\<close>, the kernel's allocator, sysfs and the hwmon core) is part of an
  explicit \<open>world\<close> that is passed through every function, together with a trace of
  the calls made.  What is undefined behaviour in C (an access through a dead or null
  pointer, an index outside the allocated table) is a \<open>fault\<close> value of the model:
  a function returns \<open>Inl\<close> of the fault, or \<open>Inr\<close> of its result and the new state.
\<close>

datatype fault = Bad_pointer | Out_of_bounds

definition fbind :: "fault + 'a \<Rightarrow> ('a \<Rightarrow> fault + 'b) \<Rightarrow> fault + 'b" where
  "fbind m f = (case m of Inl x \<Rightarrow> Inl x | Inr v \<Rightarrow> f v)"

text \<open>
  Modelled from the spec: \<^verbatim>\<open>struct txgbe_thermal_diode_data\<close> is declared in
  \<^verbatim>\<open>txgbe_type.h\<close>, outside the file modelled here.  The spec gives its three fields as
  integer degrees; each field holds the mathematical value of the C integer, and the
  accessors convert it to \<^verbatim>\<open>unsigned int\<close> as the code does.
\<close>

record txgbe_thermal_diode_data =
  temp :: int
  alarm_thresh :: int
  dalarm_thresh :: int

text \<open>The hardware handle: the sensor record and the device registers that only the HAL touches.\<close>

record txgbe_hw =
  sensor :: txgbe_thermal_diode_data
  mmio :: "nat list"

datatype show_fn = Show_temp | Show_alarmthresh | Show_dalarmthresh

text \<open>
  \<^verbatim>\<open>struct hwmon_attr\<close>, with the fields this file assigns (the declaration is in
  txgbe.h): \<open>show_ptr\<close>, \<open>store_ptr\<close> and \<open>mode\<close> are \<^verbatim>\<open>dev_attr.show\<close>, \<^verbatim>\<open>dev_attr.store\<close>
  and \<^verbatim>\<open>dev_attr.attr.mode\<close>; \<open>attr_name\<close> is \<^verbatim>\<open>dev_attr.attr.name\<close>, a pointer that is
  either null or aimed at the descriptor's own \<open>name\<close> buffer, whose contents it then
  shows; \<open>sensor_ref\<close> and \<open>hw_ref\<close> say whether the two back-pointers are set (they only
  ever point into the owning adapter, so an accessor is modelled on the adapter's own
  hardware handle).  \<open>zero_attr\<close> is a slot as \<^verbatim>\<open>kcalloc\<close> hands it out.
\<close>

record hwmon_attr =
  show_ptr :: "show_fn option"
  store_ptr :: "nat option"
  mode :: nat
  attr_name :: "string option"
  hw_ref :: bool
  sensor_ref :: bool
  name :: string

definition zero_attr :: hwmon_attr where
  "zero_attr = \<lparr>show_ptr = None, store_ptr = None, mode = 0, attr_name = None,
                hw_ref = False, sensor_ref = False, name = []\<rparr>"

text \<open>
  \<^verbatim>\<open>struct hwmon_buff\<close>: \<open>device\<close> is the pointer returned by the hwmon core, kept as the
  signed value of its bits (0 is null, \<open>-4095 .. -1\<close> are the \<^verbatim>\<open>ERR_PTR\<close> values);
  \<open>hwmon_list\<close> is the address of the descriptor table or null; \<open>n_hwmon\<close> is an
  \<^verbatim>\<open>unsigned int\<close> that the file only resets to 0 and increments below the length of
  the table, so it is kept as a natural number.  Of \<^verbatim>\<open>struct txgbe_adapter\<close> the file uses
  the hardware handle, this buffer, and the PCI device whose directory the \<open>world\<close> holds.
\<close>

record hwmon_buff =
  device :: int
  hwmon_list :: "nat option"
  n_hwmon :: nat

record txgbe_adapter =
  hw :: txgbe_hw
  txgbe_hwmon_buff :: hwmon_buff

text \<open>
  The \<^verbatim>\<open>int type\<close> argument of \<open>txgbe_add_hwmon_attr\<close>: the three macros of txgbe.h,
  which are distinct values as they label the cases of one \<^verbatim>\<open>switch\<close>, and any other value.
\<close>

datatype hwmon_type =
    TXGBE_HWMON_TYPE_TEMP
  | TXGBE_HWMON_TYPE_ALARMTHRESH
  | TXGBE_HWMON_TYPE_DALARMTHRESH
  | TXGBE_HWMON_TYPE_other int

text \<open>The calls out of the file that the trace records, with their arguments and results.\<close>

datatype event =
    Tcall_init_thermal_sensor_thresh
  | Tcall_get_thermal_sensor_data
  | Kcalloc "nat option"
  | Kfree nat
  | Hwmon_device_register int
  | Hwmon_device_unregister int
  | Device_remove_file string
  | Device_create_file string int
  | E_dev_warn string int

text \<open>
  The world outside the file: the attribute files present in the PCI device's sysfs
  directory, the registered hwmon class devices, the live \<^verbatim>\<open>kcalloc\<close> blocks, and
  the outcomes the kernel will give to the coming calls (\<open>kcalloc_fails\<close>: whether the
  next allocations fail; \<open>register_rets\<close>: the pointers the next hwmon registrations
  return; \<open>create_rets\<close>: the error, 0 for none, that the next file creations hit for
  a reason other than a name clash).
\<close>

record world =
  files :: "string list"
  hwmon_devs :: "int list"
  heap :: "nat \<Rightarrow> hwmon_attr list option"
  brk :: nat
  kcalloc_fails :: "bool list"
  register_rets :: "int list"
  create_rets :: "int list"
  trace :: "event list"

text \<open>
  What the headers and the build configuration fix: the size of the \<open>name\<close> buffer, the
  two kcompat feature macros, and the effect of the two \<^verbatim>\<open>TCALL\<close> expressions on the
  hardware handle (return value and new state).
\<close>

record env =
  name_size :: nat
  have_register_with_info :: bool
  have_register_with_groups :: bool
  init_thermal_sensor_thresh :: "txgbe_hw \<Rightarrow> int \<times> txgbe_hw"
  get_thermal_sensor_data :: "txgbe_hw \<Rightarrow> int \<times> txgbe_hw"

section \<open>Kernel interface\<close>

text \<open>
  Error numbers and pointer tests as in the kernel headers.  A file is identified by its
  name in the one directory the file uses; \<open>device_create_file\<close> fails with the error the
  kernel holds ready, or with \<open>- EEXIST\<close> when the name is taken; \<open>device_remove_file\<close>
  removes the name if it is there and returns nothing.  Freeing a block that is not live
  and unregistering a device that is not registered are faults.
\<close>

definition EPERM :: int where "EPERM = 1"
definition ENOMEM :: int where "ENOMEM = 12"
definition EEXIST :: int where "EEXIST = 17"
definition MAX_ERRNO :: int where "MAX_ERRNO = 4095"
definition S_IRUGO :: nat where "S_IRUGO = 292"

definition IS_ERR :: "int \<Rightarrow> bool" where
  "IS_ERR p \<longleftrightarrow> - MAX_ERRNO \<le> p \<and> p < 0"

definition IS_ERR_OR_NULL :: "int \<Rightarrow> bool" where
  "IS_ERR_OR_NULL p \<longleftrightarrow> p = 0 \<or> IS_ERR p"

text \<open>\<^verbatim>\<open>PTR_ERR\<close> yields a long; storing it in \<^verbatim>\<open>int rc\<close> keeps the low 32 bits.\<close>

definition PTR_ERR :: "int \<Rightarrow> int" where
  "PTR_ERR p = sint (word_of_int p :: 32 word)"

definition emit :: "event \<Rightarrow> world \<Rightarrow> world" where
  "emit ev w = w\<lparr>trace := trace w @ [ev]\<rparr>"

text \<open>The outcomes the kernel holds ready for the coming calls; a list that has run out means success.\<close>

definition next_kcalloc_fails :: "world \<Rightarrow> bool" where
  "next_kcalloc_fails w = (case kcalloc_fails w of [] \<Rightarrow> False | b # _ \<Rightarrow> b)"

definition create_ret_at :: "world \<Rightarrow> nat \<Rightarrow> int" where
  "create_ret_at w i = (if i < length (create_rets w) then create_rets w ! i else 0)"

definition next_register_ret :: "world \<Rightarrow> int" where
  "next_register_ret w = (case register_rets w of [] \<Rightarrow> - ENOMEM | x # _ \<Rightarrow> x)"

definition kcalloc :: "nat \<Rightarrow> world \<Rightarrow> nat option \<times> world" where
  "kcalloc n w =
     (let w1 = w\<lparr>kcalloc_fails := tl (kcalloc_fails w)\<rparr>
      in if next_kcalloc_fails w then (None, emit (Kcalloc None) w1)
         else (Some (brk w),
               emit (Kcalloc (Some (brk w)))
                 (w1\<lparr>heap := (heap w)(brk w \<mapsto> replicate n zero_attr), brk := Suc (brk w)\<rparr>)))"

definition kfree :: "nat \<Rightarrow> world \<Rightarrow> fault + world" where
  "kfree p w =
     (case heap w p of
        None \<Rightarrow> Inl Bad_pointer
      | Some _ \<Rightarrow> Inr (emit (Kfree p) (w\<lparr>heap := (heap w)(p := None)\<rparr>)))"

definition device_remove_file :: "hwmon_attr \<Rightarrow> world \<Rightarrow> fault + world" where
  "device_remove_file d w =
     (case attr_name d of
        None \<Rightarrow> Inl Bad_pointer
      | Some n \<Rightarrow> Inr (emit (Device_remove_file n) (w\<lparr>files := removeAll n (files w)\<rparr>)))"

definition device_create_file :: "hwmon_attr \<Rightarrow> world \<Rightarrow> fault + (int \<times> world)" where
  "device_create_file d w =
     (case attr_name d of
        None \<Rightarrow> Inl Bad_pointer
      | Some n \<Rightarrow>
          let f = create_ret_at w 0;
              w1 = w\<lparr>create_rets := tl (create_rets w)\<rparr>;
              rc = (if f \<noteq> 0 then f else if n \<in> set (files w) then - EEXIST else 0);
              w2 = (if rc = 0 then w1\<lparr>files := files w @ [n]\<rparr> else w1)
          in Inr (rc, emit (Device_create_file n rc) w2))"

text \<open>One registration with the hwmon core, through any of its three entry points.\<close>

definition hwmon_register :: "world \<Rightarrow> int \<times> world" where
  "hwmon_register w =
     (let d = next_register_ret w;
          w1 = w\<lparr>register_rets := tl (register_rets w)\<rparr>;
          w2 = (if IS_ERR d then w1 else w1\<lparr>hwmon_devs := d # hwmon_devs w\<rparr>)
      in (d, emit (Hwmon_device_register d) w2))"

definition hwmon_device_unregister :: "int \<Rightarrow> world \<Rightarrow> fault + world" where
  "hwmon_device_unregister d w =
     (if d \<in> set (hwmon_devs w)
      then Inr (emit (Hwmon_device_unregister d) (w\<lparr>hwmon_devs := remove1 d (hwmon_devs w)\<rparr>))
      else Inl Bad_pointer)"

section \<open>Formatting\<close>

definition digit_char :: "nat \<Rightarrow> char" where
  "digit_char d = ''0123456789'' ! d"

function dec :: "nat \<Rightarrow> string" where
  "dec n = (if n < 10 then [digit_char n] else dec (n div 10) @ [digit_char (n mod 10)])"
  by pat_completeness auto
termination
  by (relation "measure id") auto

declare dec.simps [simp del]

text \<open>\<^verbatim>\<open>sprintf(buf, "%u\n", value)\<close>: the buffer's new contents; the return value is its length.\<close>

definition sprintf_u_nl :: "32 word \<Rightarrow> string" where
  "sprintf_u_nl v = dec (unat v) @ [CHR 0x0A]"

text \<open>
  \<^verbatim>\<open>snprintf(name, sizeof(name), "temp%u<suffix>", u)\<close>: the first \<open>sz - 1\<close> characters of
  the formatted text are stored, then a terminator.  (A buffer of size 0 is not written;
  it holds the empty string, which is what \<open>take 0\<close> gives.)
\<close>

definition snprintf_temp_u :: "nat \<Rightarrow> nat \<Rightarrow> string \<Rightarrow> string" where
  "snprintf_temp_u sz u suffix = take (sz - 1) (''temp'' @ dec u @ suffix)"

section \<open>hwmon callback functions\<close>

text \<open>
  Lines 121 to 166.  Each accessor gets the hardware handle its descriptor points to and
  the world, and returns the text written to the buffer with the value returned (the
  number of characters), the handle and the world.  \<open>value0\<close> is the field converted to
  \<^verbatim>\<open>unsigned int\<close>, \<open>value1\<close> is \<open>value0\<close> after \<^verbatim>\<open>value *= 1000\<close>.
\<close>

definition txgbe_hwmon_show_temp ::
  "env \<Rightarrow> txgbe_hw \<Rightarrow> world \<Rightarrow> (string \<times> int) \<times> txgbe_hw \<times> world" where
  "txgbe_hwmon_show_temp e h w =
     (let h1 = snd (get_thermal_sensor_data e h);
          w1 = emit Tcall_get_thermal_sensor_data w;
          value0 = (word_of_int (temp (sensor h1)) :: 32 word);
          value1 = value0 * 1000;
          buf = sprintf_u_nl value1
      in ((buf, int (length buf)), h1, w1))"

definition txgbe_hwmon_show_alarmthresh ::
  "env \<Rightarrow> txgbe_hw \<Rightarrow> world \<Rightarrow> (string \<times> int) \<times> txgbe_hw \<times> world" where
  "txgbe_hwmon_show_alarmthresh e h w =
     (let value0 = (word_of_int (alarm_thresh (sensor h)) :: 32 word);
          value1 = value0 * 1000;
          buf = sprintf_u_nl value1
      in ((buf, int (length buf)), h, w))"

definition txgbe_hwmon_show_dalarmthresh ::
  "env \<Rightarrow> txgbe_hw \<Rightarrow> world \<Rightarrow> (string \<times> int) \<times> txgbe_hw \<times> world" where
  "txgbe_hwmon_show_dalarmthresh e h w =
     (let value0 = (word_of_int (dalarm_thresh (sensor h)) :: 32 word);
          value1 = value0 * 1000;
          buf = sprintf_u_nl value1
      in ((buf, int (length buf)), h, w))"

section \<open>Registering with the hwmon core\<close>

text \<open>
  Lines 94 to 118: the entry points that the build has are tried in turn, and the first
  result that is not an error pointer is returned; the plain entry point comes last and
  its result is returned as it is.
\<close>

definition hwmon_register_plain :: "world \<Rightarrow> int \<times> world" where
  "hwmon_register_plain w = hwmon_register w"

definition hwmon_register_groups :: "env \<Rightarrow> world \<Rightarrow> int \<times> world" where
  "hwmon_register_groups e w =
     (if have_register_with_groups e
      then (let (d, w1) = hwmon_register w
            in if \<not> IS_ERR d then (d, w1) else hwmon_register_plain w1)
      else hwmon_register_plain w)"

definition txgbe_hwmon_device_register :: "env \<Rightarrow> world \<Rightarrow> int \<times> world" where
  "txgbe_hwmon_device_register e w =
     (if have_register_with_info e
      then (let (d, w1) = hwmon_register w
            in if \<not> IS_ERR d then (d, w1) else hwmon_register_groups e w1)
      else hwmon_register_groups e w)"

section \<open>The attribute table\<close>

text \<open>The \<^verbatim>\<open>switch\<close> of \<open>txgbe_add_hwmon_attr\<close>: accessor and name suffix per type.\<close>

fun attr_kind :: "hwmon_type \<Rightarrow> (show_fn \<times> string) option" where
  "attr_kind TXGBE_HWMON_TYPE_TEMP = Some (Show_temp, ''_input'')"
| "attr_kind TXGBE_HWMON_TYPE_ALARMTHRESH = Some (Show_alarmthresh, ''_alarmthresh'')"
| "attr_kind TXGBE_HWMON_TYPE_DALARMTHRESH = Some (Show_dalarmthresh, ''_dalarmthresh'')"
| "attr_kind (TXGBE_HWMON_TYPE_other _) = None"

definition fill_attr :: "env \<Rightarrow> show_fn \<Rightarrow> string \<Rightarrow> hwmon_attr \<Rightarrow> hwmon_attr" where
  "fill_attr e sh suffix slot =
     (let nm = snprintf_temp_u (name_size e) 0 suffix
      in slot\<lparr>show_ptr := Some sh, name := nm, sensor_ref := True, hw_ref := True,
              store_ptr := None, mode := S_IRUGO, attr_name := Some nm\<rparr>)"

text \<open>Assignments to the three fields of the adapter's \<open>txgbe_hwmon_buff\<close>.\<close>

definition set_n_hwmon :: "nat \<Rightarrow> txgbe_adapter \<Rightarrow> txgbe_adapter" where
  "set_n_hwmon n a = a\<lparr>txgbe_hwmon_buff := (txgbe_hwmon_buff a)\<lparr>n_hwmon := n\<rparr>\<rparr>"

definition set_device :: "int \<Rightarrow> txgbe_adapter \<Rightarrow> txgbe_adapter" where
  "set_device d a = a\<lparr>txgbe_hwmon_buff := (txgbe_hwmon_buff a)\<lparr>device := d\<rparr>\<rparr>"

definition set_hwmon_list :: "nat option \<Rightarrow> txgbe_adapter \<Rightarrow> txgbe_adapter" where
  "set_hwmon_list p a = a\<lparr>txgbe_hwmon_buff := (txgbe_hwmon_buff a)\<lparr>hwmon_list := p\<rparr>\<rparr>"

text \<open>
  Lines 177 to 229.  The \<^verbatim>\<open>default\<close> case returns \<open>- EPERM\<close> before the slot is touched.
  Otherwise the slot \<open>hwmon_list[n_hwmon]\<close> is written, the file of its name is removed and
  created, a failure is logged, and the count goes up when the creation returned 0.
\<close>

definition txgbe_add_hwmon_attr ::
  "env \<Rightarrow> txgbe_adapter \<Rightarrow> hwmon_type \<Rightarrow> world \<Rightarrow> fault + (int \<times> txgbe_adapter \<times> world)" where
  "txgbe_add_hwmon_attr e a ty w =
     (let n_attr = n_hwmon (txgbe_hwmon_buff a) in
      case attr_kind ty of
        None \<Rightarrow> Inr (- EPERM, a, w)
      | Some (sh, suffix) \<Rightarrow>
         (case hwmon_list (txgbe_hwmon_buff a) of
            None \<Rightarrow> Inl Bad_pointer
          | Some p \<Rightarrow>
             (case heap w p of
                None \<Rightarrow> Inl Bad_pointer
              | Some tbl \<Rightarrow>
                  if \<not> n_attr < length tbl then Inl Out_of_bounds
                  else
                    let txgbe_attr = fill_attr e sh suffix (tbl ! n_attr);
                        w1 = w\<lparr>heap := (heap w)(p \<mapsto> tbl[n_attr := txgbe_attr])\<rparr>
                    in fbind (device_remove_file txgbe_attr w1) (\<lambda>w2.
                       fbind (device_create_file txgbe_attr w2) (\<lambda>(rc, w3).
                         let w4 = (if rc \<noteq> 0 then emit (E_dev_warn (name txgbe_attr) rc) w3 else w3);
                             a1 = (if rc = 0 then set_n_hwmon (Suc n_attr) a else a)
                         in Inr (rc, a1, w4))))))"

section \<open>Teardown\<close>

text \<open>
  Lines 232 to 263.  \<open>del_loop\<close> is the loop of lines 242 to 245 from index \<open>i\<close> on,
  \<open>del_device\<close> is lines 251 to 255.
\<close>

function del_loop :: "hwmon_attr list \<Rightarrow> nat \<Rightarrow> nat \<Rightarrow> world \<Rightarrow> fault + world" where
  "del_loop tbl i n w =
     (if i < n
      then (if i < length tbl
            then (case device_remove_file (tbl ! i) w of
                    Inl x \<Rightarrow> Inl x
                  | Inr w1 \<Rightarrow> del_loop tbl (Suc i) n w1)
            else Inl Out_of_bounds)
      else Inr w)"
  by pat_completeness auto
termination
  by (relation "measure (\<lambda>(tbl, i, n, w). n - i)") auto

declare del_loop.simps [simp del]

definition del_device :: "txgbe_adapter \<Rightarrow> world \<Rightarrow> fault + (txgbe_adapter \<times> world)" where
  "del_device a w =
     fbind (if \<not> IS_ERR_OR_NULL (device (txgbe_hwmon_buff a))
            then hwmon_device_unregister (device (txgbe_hwmon_buff a)) w
            else Inr w) (\<lambda>w1.
       Inr (set_n_hwmon 0 (set_device 0 a), w1))"

definition txgbe_sysfs_del_adapter ::
  "txgbe_adapter option \<Rightarrow> world \<Rightarrow> fault + (txgbe_adapter option \<times> world)" where
  "txgbe_sysfs_del_adapter adapter w =
     (case adapter of
        None \<Rightarrow> Inr (None, w)
      | Some a \<Rightarrow>
          fbind (case hwmon_list (txgbe_hwmon_buff a) of
                   None \<Rightarrow> Inr (a, w)
                 | Some p \<Rightarrow>
                    (case heap w p of
                       None \<Rightarrow> Inl Bad_pointer
                     | Some tbl \<Rightarrow>
                         fbind (del_loop tbl 0 (n_hwmon (txgbe_hwmon_buff a)) w) (\<lambda>w1.
                         fbind (kfree p w1) (\<lambda>w2.
                           Inr (set_hwmon_list None a, w2))))) (\<lambda>(a1, w3).
          fbind (del_device a1 w3) (\<lambda>(a2, w4).
            Inr (Some a2, w4))))"

definition txgbe_sysfs_exit ::
  "txgbe_adapter option \<Rightarrow> world \<Rightarrow> fault + (txgbe_adapter option \<times> world)" where
  "txgbe_sysfs_exit adapter w = txgbe_sysfs_del_adapter adapter w"

section \<open>Initialisation\<close>

text \<open>
  Lines 266 to 320.  For a null adapter line 270 only computes an address, and the test of
  line 274 jumps to \<^verbatim>\<open>err\<close> with \<open>rc = 0\<close>.
\<close>

text \<open>The \<^verbatim>\<open>err:\<close> label: tear down, then return \<open>rc\<close>.\<close>

definition sysfs_init_err ::
  "int \<Rightarrow> txgbe_adapter option \<Rightarrow> world \<Rightarrow> fault + (int \<times> txgbe_adapter option \<times> world)" where
  "sysfs_init_err rc adapter w =
     fbind (txgbe_sysfs_del_adapter adapter w) (\<lambda>(adapter1, w1). Inr (rc, adapter1, w1))"

text \<open>The three calls at lines 306 to 310 and the test of their disjunction.\<close>

definition sysfs_init_populate ::
  "env \<Rightarrow> txgbe_adapter \<Rightarrow> world \<Rightarrow> fault + (int \<times> txgbe_adapter option \<times> world)" where
  "sysfs_init_populate e a w =
     fbind (txgbe_add_hwmon_attr e a TXGBE_HWMON_TYPE_TEMP w) (\<lambda>(rc1, a1, w1).
     fbind (txgbe_add_hwmon_attr e a1 TXGBE_HWMON_TYPE_ALARMTHRESH w1) (\<lambda>(rc2, a2, w2).
     fbind (txgbe_add_hwmon_attr e a2 TXGBE_HWMON_TYPE_DALARMTHRESH w2) (\<lambda>(rc3, a3, w3).
       let rc = (rc1 OR rc2) OR rc3
       in if rc \<noteq> 0 then sysfs_init_err rc (Some a3) w3
          else Inr (rc, Some a3, w3))))"

definition txgbe_sysfs_init ::
  "env \<Rightarrow> txgbe_adapter option \<Rightarrow> world \<Rightarrow> fault + (int \<times> txgbe_adapter option \<times> world)" where
  "txgbe_sysfs_init e adapter w =
     (case adapter of
        None \<Rightarrow> sysfs_init_err 0 None w
      | Some a \<Rightarrow>
          let (r, h1) = init_thermal_sensor_thresh e (hw a);
              a1 = a\<lparr>hw := h1\<rparr>;
              w1 = emit Tcall_init_thermal_sensor_thresh w
          in if r \<noteq> 0 then Inr (0, Some a1, w1)
             else
               let a2 = set_n_hwmon 0 (set_device 0 a1);
                   (p, w2) = kcalloc 3 w1;
                   a3 = set_hwmon_list p a2
               in if p = None then sysfs_init_err (- ENOMEM) (Some a3) w2
                  else
                    let (d, w3) = txgbe_hwmon_device_register e w2;
                        a4 = set_device d a3
                    in if IS_ERR d then sysfs_init_err (PTR_ERR d) (Some (set_device 0 a4)) w3
                       else sysfs_init_populate e a4 w3)"

section \<open>Runs of calls, descriptors and traces\<close>

text \<open>A run of consecutive calls of \<open>txgbe_add_hwmon_attr\<close>, with the return code of each.\<close>

fun add_seq ::
  "env \<Rightarrow> hwmon_type list \<Rightarrow> txgbe_adapter \<Rightarrow> world \<Rightarrow>
   fault + (int list \<times> txgbe_adapter \<times> world)" where
  "add_seq e [] a w = Inr ([], a, w)"
| "add_seq e (ty # tys) a w =
     fbind (txgbe_add_hwmon_attr e a ty w) (\<lambda>(rc, a1, w1).
     fbind (add_seq e tys a1 w1) (\<lambda>(rcs, a2, w2).
       Inr (rc # rcs, a2, w2)))"

text \<open>The descriptor that lines 186 to 213 build for a type, whatever the slot held before.\<close>

definition attr_of :: "env \<Rightarrow> hwmon_type \<Rightarrow> hwmon_attr" where
  "attr_of e ty =
     (case attr_kind ty of
        None \<Rightarrow> zero_attr
      | Some (sh, suffix) \<Rightarrow> fill_attr e sh suffix zero_attr)"

definition known :: "hwmon_type \<Rightarrow> bool" where
  "known ty \<longleftrightarrow> attr_kind ty \<noteq> None"

text \<open>The three types in the order of lines 306 to 308, and the file names they get.\<close>

definition populate_types :: "hwmon_type list" where
  "populate_types =
     [TXGBE_HWMON_TYPE_TEMP, TXGBE_HWMON_TYPE_ALARMTHRESH, TXGBE_HWMON_TYPE_DALARMTHRESH]"

definition attr_names :: "env \<Rightarrow> string list" where
  "attr_names e = map (\<lambda>ty. name (attr_of e ty)) populate_types"

text \<open>What one registration attempt adds to the trace: lines 216 to 223.\<close>

definition attempt_events :: "string \<Rightarrow> int \<Rightarrow> event list" where
  "attempt_events nm rc =
     [Device_remove_file nm, Device_create_file nm rc] @
     (if rc \<noteq> 0 then [E_dev_warn nm rc] else [])"

fun is_create :: "event \<Rightarrow> bool" where
  "is_create (Device_create_file _ _) = True"
| "is_create _ = False"

text \<open>The types of a run whose file was created, in the order of the calls.\<close>

definition created :: "hwmon_type list \<Rightarrow> int list \<Rightarrow> hwmon_type list" where
  "created tys rcs = map fst (filter (\<lambda>(ty, rc). rc = 0) (zip tys rcs))"

text \<open>
  The file names that the calls of a run try, in the order of the calls: a call of another
  type returns at line 204, before a name is written.
\<close>

definition known_names :: "env \<Rightarrow> hwmon_type list \<Rightarrow> string list" where
  "known_names e tys = map (\<lambda>ty. name (attr_of e ty)) (filter known tys)"

text \<open>
  A registry whose pointers are good: the table pointer is null or aims at a live block
  that holds the \<open>n_hwmon\<close> descriptors counted, each with its name pointer set; the
  device pointer is null, an error value, or a registered hwmon device.
\<close>

definition registry_ok :: "txgbe_adapter \<Rightarrow> world \<Rightarrow> bool" where
  "registry_ok a w \<longleftrightarrow>
     (case hwmon_list (txgbe_hwmon_buff a) of
        None \<Rightarrow> True
      | Some p \<Rightarrow>
         (case heap w p of
            None \<Rightarrow> False
          | Some tbl \<Rightarrow>
              n_hwmon (txgbe_hwmon_buff a) \<le> length tbl \<and>
              list_all (\<lambda>d. attr_name d = Some (name d)) (take (n_hwmon (txgbe_hwmon_buff a)) tbl))) \<and>
     (IS_ERR_OR_NULL (device (txgbe_hwmon_buff a)) \<or>
      device (txgbe_hwmon_buff a) \<in> set (hwmon_devs w))"

text \<open>The decimal representation of an integer, as the spec's sentences on units use it.\<close>

definition dec_int :: "int \<Rightarrow> string" where
  "dec_int i = (if i < 0 then CHR ''-'' # dec (nat (- i)) else dec (nat i))"

section \<open>Invariants of a run and the effect of the teardown\<close>

text \<open>
  The facts that hold after a run of calls, stated over the history of the run: the list
  of the types tried so far, each with the return code of its call.  \<open>tab_inv\<close> is about
  the table and the count, \<open>frame_inv\<close> about what the calls leave alone, \<open>files_inv\<close> and
  \<open>files_exact\<close> about the directory, \<open>trace_inv\<close> about the calls made and \<open>oracle_inv\<close>
  about the return codes.  \<open>torn_down\<close> and \<open>teardown_world\<close> are the adapter and the world
  that \<open>txgbe_sysfs_del_adapter\<close> leaves; \<open>reg_effect\<close> is what a registration with the hwmon
  core changes; \<open>populate_start\<close> is the adapter at line 305.
\<close>

definition tab_inv ::
  "env \<Rightarrow> nat \<Rightarrow> nat \<Rightarrow> (hwmon_type \<times> int) list \<Rightarrow> txgbe_adapter \<Rightarrow> world \<Rightarrow> bool" where
  "tab_inv e p L h a w \<longleftrightarrow>
     hwmon_list (txgbe_hwmon_buff a) = Some p \<and>
     n_hwmon (txgbe_hwmon_buff a) = length (filter (\<lambda>(ty, rc). rc = 0) h) \<and>
     n_hwmon (txgbe_hwmon_buff a) \<le> L \<and>
     (\<forall>(ty, rc) \<in> set h. rc = 0 \<longrightarrow> known ty) \<and>
     (\<exists>tbl. heap w p = Some tbl \<and> length tbl = L \<and>
        take (n_hwmon (txgbe_hwmon_buff a)) tbl =
          map (\<lambda>(ty, rc). attr_of e ty) (filter (\<lambda>(ty, rc). rc = 0) h))"

definition frame_inv :: "txgbe_adapter \<Rightarrow> world \<Rightarrow> nat \<Rightarrow> txgbe_adapter \<Rightarrow> world \<Rightarrow> bool" where
  "frame_inv a0 w0 p a w \<longleftrightarrow>
     hw a = hw a0 \<and> device (txgbe_hwmon_buff a) = device (txgbe_hwmon_buff a0) \<and>
     hwmon_devs w = hwmon_devs w0 \<and> brk w = brk w0 \<and>
     kcalloc_fails w = kcalloc_fails w0 \<and> register_rets w = register_rets w0 \<and>
     (\<forall>q. q \<noteq> p \<longrightarrow> heap w q = heap w0 q)"

definition tried :: "env \<Rightarrow> (hwmon_type \<times> int) list \<Rightarrow> string set" where
  "tried e h = (\<lambda>(ty, rc). name (attr_of e ty)) ` {x \<in> set h. known (fst x)}"

definition made :: "env \<Rightarrow> (hwmon_type \<times> int) list \<Rightarrow> string set" where
  "made e h = (\<lambda>(ty, rc). name (attr_of e ty)) ` {x \<in> set h. snd x = 0}"

definition files_inv :: "env \<Rightarrow> string list \<Rightarrow> (hwmon_type \<times> int) list \<Rightarrow> world \<Rightarrow> bool" where
  "files_inv e F0 h w \<longleftrightarrow>
     filter (\<lambda>x. x \<notin> tried e h) (files w) = filter (\<lambda>x. x \<notin> tried e h) F0 \<and>
     (\<forall>x \<in> set (files w). x \<in> tried e h \<longrightarrow> x \<in> made e h)"

definition trace_inv :: "env \<Rightarrow> event list \<Rightarrow> (hwmon_type \<times> int) list \<Rightarrow> world \<Rightarrow> bool" where
  "trace_inv e T0 h w \<longleftrightarrow>
     trace w = T0 @ concat (map (\<lambda>(ty, rc).
        if known ty then attempt_events (name (attr_of e ty)) rc else []) h)"

definition oracle_inv :: "int list \<Rightarrow> (hwmon_type \<times> int) list \<Rightarrow> world \<Rightarrow> bool" where
  "oracle_inv C0 h w \<longleftrightarrow>
     create_rets w = drop (length (filter (\<lambda>(ty, rc). known ty) h)) C0 \<and>
     map snd (filter (\<lambda>(ty, rc). known ty) h) =
       map (\<lambda>i. if i < length C0 then C0 ! i else 0) [0..<length (filter (\<lambda>(ty, rc). known ty) h)] \<and>
     (\<forall>(ty, rc) \<in> set h. \<not> known ty \<longrightarrow> rc = - EPERM)"

definition live_attrs :: "txgbe_adapter \<Rightarrow> world \<Rightarrow> hwmon_attr list" where
  "live_attrs a w =
     (case hwmon_list (txgbe_hwmon_buff a) of
        None \<Rightarrow> []
      | Some p \<Rightarrow> (case heap w p of None \<Rightarrow> [] | Some tbl \<Rightarrow> take (n_hwmon (txgbe_hwmon_buff a)) tbl))"

definition torn_down :: "txgbe_adapter \<Rightarrow> txgbe_adapter" where
  "torn_down a = a\<lparr>txgbe_hwmon_buff := \<lparr>device = 0, hwmon_list = None, n_hwmon = 0\<rparr>\<rparr>"

definition teardown_world :: "txgbe_adapter \<Rightarrow> world \<Rightarrow> world" where
  "teardown_world a w =
     w\<lparr>files := filter (\<lambda>x. x \<notin> set (map name (live_attrs a w))) (files w),
       heap := (case hwmon_list (txgbe_hwmon_buff a) of None \<Rightarrow> heap w | Some p \<Rightarrow> (heap w)(p := None)),
       hwmon_devs := (if IS_ERR_OR_NULL (device (txgbe_hwmon_buff a)) then hwmon_devs w
                      else remove1 (device (txgbe_hwmon_buff a)) (hwmon_devs w)),
       trace := trace w @ map (\<lambda>d. Device_remove_file (name d)) (live_attrs a w) @
                (case hwmon_list (txgbe_hwmon_buff a) of None \<Rightarrow> [] | Some p \<Rightarrow> [Kfree p]) @
                (if IS_ERR_OR_NULL (device (txgbe_hwmon_buff a)) then []
                 else [Hwmon_device_unregister (device (txgbe_hwmon_buff a))])\<rparr>"

definition reg_effect :: "world \<Rightarrow> int \<Rightarrow> world \<Rightarrow> bool" where
  "reg_effect w d w' \<longleftrightarrow>
     files w' = files w \<and> heap w' = heap w \<and> brk w' = brk w \<and>
     create_rets w' = create_rets w \<and> kcalloc_fails w' = kcalloc_fails w \<and>
     hwmon_devs w' = (if IS_ERR d then hwmon_devs w else d # hwmon_devs w) \<and>
     (\<exists>evs. trace w' = trace w @ evs \<and> filter is_create evs = [])"

definition files_after :: "env \<Rightarrow> string list \<Rightarrow> (hwmon_type \<times> int) list \<Rightarrow> string list" where
  "files_after e F0 h =
     foldl (\<lambda>fs (ty, rc).
        if known ty
        then removeAll (name (attr_of e ty)) fs @ (if rc = 0 then [name (attr_of e ty)] else [])
        else fs) F0 h"

definition files_exact :: "env \<Rightarrow> string list \<Rightarrow> (hwmon_type \<times> int) list \<Rightarrow> world \<Rightarrow> bool" where
  "files_exact e F0 h w \<longleftrightarrow> files w = files_after e F0 h"

definition populate_start :: "txgbe_hw \<Rightarrow> int \<Rightarrow> nat \<Rightarrow> txgbe_adapter" where
  "populate_start h1 d p = \<lparr>hw = h1, txgbe_hwmon_buff = \<lparr>device = d, hwmon_list = Some p, n_hwmon = 0\<rparr>\<rparr>"

section \<open>Example states\<close>

text \<open>
  A HAL that reports a sensor with thresholds 100 and 90 and reads 45 degrees, one without
  a sensor and one that reads a degree below zero; a name buffer of 19 bytes; a freshly
  allocated adapter; and worlds in which the directory already holds a file \<^verbatim>\<open>temp0_input\<close>
  left over from an earlier run.
\<close>

definition ex_env :: env where
  "ex_env =
     \<lparr>name_size = 19, have_register_with_info = True, have_register_with_groups = True,
      init_thermal_sensor_thresh =
        (\<lambda>h. (0, h\<lparr>sensor := (sensor h)\<lparr>alarm_thresh := 100, dalarm_thresh := 90\<rparr>\<rparr>)),
      get_thermal_sensor_data = (\<lambda>h. (0, h\<lparr>sensor := (sensor h)\<lparr>temp := 45\<rparr>\<rparr>))\<rparr>"

definition ex_env_no_sensor :: env where
  "ex_env_no_sensor = ex_env\<lparr>init_thermal_sensor_thresh := (\<lambda>h. (2147483647, h))\<rparr>"

definition ex_env_cold :: env where
  "ex_env_cold =
     ex_env\<lparr>get_thermal_sensor_data := (\<lambda>h. (0, h\<lparr>sensor := (sensor h)\<lparr>temp := - 1\<rparr>\<rparr>))\<rparr>"

definition ex_hw :: txgbe_hw where
  "ex_hw = \<lparr>sensor = \<lparr>temp = 0, alarm_thresh = 0, dalarm_thresh = 0\<rparr>, mmio = []\<rparr>"

definition ex_hw_neg_thresh :: txgbe_hw where
  "ex_hw_neg_thresh = \<lparr>sensor = \<lparr>temp = 0, alarm_thresh = - 1, dalarm_thresh = - 1\<rparr>, mmio = []\<rparr>"

definition ex_hw_thresh :: txgbe_hw where
  "ex_hw_thresh = \<lparr>sensor = \<lparr>temp = 0, alarm_thresh = 90, dalarm_thresh = 100\<rparr>, mmio = []\<rparr>"

definition ex_adapter :: txgbe_adapter where
  "ex_adapter = \<lparr>hw = ex_hw, txgbe_hwmon_buff = \<lparr>device = 0, hwmon_list = None, n_hwmon = 0\<rparr>\<rparr>"

definition ex_world :: world where
  "ex_world =
     \<lparr>files = [''temp0_input'', ''uevent''], hwmon_devs = [], heap = Map.empty, brk = 1,
      kcalloc_fails = [], register_rets = [4096], create_rets = [], trace = []\<rparr>"

definition ex_world_fail :: world where
  "ex_world_fail = ex_world\<lparr>create_rets := [0, - 12, 0]\<rparr>"

definition ex_adapter_active :: txgbe_adapter where
  "ex_adapter_active =
     \<lparr>hw = ex_hw, txgbe_hwmon_buff = \<lparr>device = 4096, hwmon_list = Some 1, n_hwmon = 3\<rparr>\<rparr>"

definition ex_world_active :: world where
  "ex_world_active =
     \<lparr>files = [''uevent'', ''temp0_input'', ''temp0_alarmthresh'', ''temp0_dalarmthresh''],
      hwmon_devs = [4096],
      heap = [1 \<mapsto> map (attr_of ex_env) populate_types],
      brk = 2, kcalloc_fails = [], register_rets = [], create_rets = [], trace = []\<rparr>"

definition ex_adapter_table :: txgbe_adapter where
  "ex_adapter_table =
     \<lparr>hw = ex_hw, txgbe_hwmon_buff = \<lparr>device = 4096, hwmon_list = Some 1, n_hwmon = 0\<rparr>\<rparr>"

definition ex_world_table :: world where
  "ex_world_table =
     \<lparr>files = [''temp0_input'', ''uevent''], hwmon_devs = [4096],
      heap = [1 \<mapsto> replicate 3 zero_attr],
      brk = 2, kcalloc_fails = [], register_rets = [], create_rets = [], trace = []\<rparr>"

definition ex_world_table_fail :: world where
  "ex_world_table_fail = ex_world_table\<lparr>create_rets := [0, - 12, 0]\<rparr>"

section \<open>Single calls and runs\<close>

lemma fbind_Inr [simp]: "fbind (Inr v) f = f v"
  by (simp add: fbind_def)

lemma fbind_Inl [simp]: "fbind (Inl x) f = Inl x"
  by (simp add: fbind_def)

lemma fbind_eq_Inr: "fbind m f = Inr r \<longleftrightarrow> (\<exists>v. m = Inr v \<and> f v = Inr r)"
  by (cases m) simp_all

lemma fill_attr_indep: "fill_attr e sh sfx slot = fill_attr e sh sfx zero_attr"
  by (cases slot) (simp add: fill_attr_def zero_attr_def Let_def)

lemma attr_of_known: "attr_kind ty = Some (sh, sfx) \<Longrightarrow> fill_attr e sh sfx slot = attr_of e ty"
  by (simp add: attr_of_def fill_attr_indep [of e sh sfx slot])

lemma attr_name_attr_of: "known ty \<Longrightarrow> attr_name (attr_of e ty) = Some (name (attr_of e ty))"
  by (auto simp: known_def attr_of_def fill_attr_def Let_def)

lemma add_unknown:
  "\<not> known ty \<Longrightarrow> txgbe_add_hwmon_attr e a ty w = Inr (- EPERM, a, w)"
  by (cases "attr_kind ty") (simp_all add: known_def txgbe_add_hwmon_attr_def Let_def)

lemma add_step:
  assumes k: "known ty"
    and p: "hwmon_list (txgbe_hwmon_buff a) = Some p"
    and t: "heap w p = Some tbl"
    and n: "n_hwmon (txgbe_hwmon_buff a) < length tbl"
  shows "txgbe_add_hwmon_attr e a ty w =
     Inr (create_ret_at w 0,
          (if create_ret_at w 0 = 0 then set_n_hwmon (Suc (n_hwmon (txgbe_hwmon_buff a))) a else a),
          w\<lparr>heap := (heap w)(p \<mapsto> tbl[n_hwmon (txgbe_hwmon_buff a) := attr_of e ty]),
            files := removeAll (name (attr_of e ty)) (files w) @
                     (if create_ret_at w 0 = 0 then [name (attr_of e ty)] else []),
            create_rets := tl (create_rets w),
            trace := trace w @ attempt_events (name (attr_of e ty)) (create_ret_at w 0)\<rparr>)"
proof -
  from k obtain sh sfx where ks: "attr_kind ty = Some (sh, sfx)"
    by (auto simp: known_def)
  have ind: "fill_attr e sh sfx (tbl ! n_hwmon (txgbe_hwmon_buff a)) = attr_of e ty"
    using ks by (rule attr_of_known)
  have nm: "attr_name (attr_of e ty) = Some (name (attr_of e ty))"
    using k by (rule attr_name_attr_of)
  show ?thesis
    using ks p t n
    by (simp add: txgbe_add_hwmon_attr_def Let_def ind nm device_remove_file_def
        device_create_file_def emit_def attempt_events_def create_ret_at_def)
qed

lemma add_known_bounds:
  assumes "txgbe_add_hwmon_attr e a ty w = Inr r" "known ty"
    "hwmon_list (txgbe_hwmon_buff a) = Some p" "heap w p = Some tbl"
  shows "n_hwmon (txgbe_hwmon_buff a) < length tbl"
  using assms
  by (auto simp: txgbe_add_hwmon_attr_def known_def Let_def split: if_splits)

lemma add_seq_invariant:
  assumes run: "add_seq e tys a w = Inr (rcs, a', w')"
    and init: "I h a w"
    and step: "\<And>ty h a w rc a1 w1.
        I h a w \<Longrightarrow> txgbe_add_hwmon_attr e a ty w = Inr (rc, a1, w1) \<Longrightarrow> I (h @ [(ty, rc)]) a1 w1"
  shows "length rcs = length tys \<and> I (h @ zip tys rcs) a' w'"
  using run init
proof (induction tys arbitrary: a w h rcs)
  case Nil
  then show ?case by simp
next
  case (Cons ty tys)
  from Cons.prems(1) obtain rc a1 w1 rcs1 where
    s1: "txgbe_add_hwmon_attr e a ty w = Inr (rc, a1, w1)"
    and s2: "add_seq e tys a1 w1 = Inr (rcs1, a', w')"
    and r: "rcs = rc # rcs1"
    by (auto simp: fbind_eq_Inr)
  have "I (h @ [(ty, rc)]) a1 w1"
    using Cons.prems(2) s1 by (rule step)
  with Cons.IH [OF s2] have "length rcs1 = length tys \<and> I ((h @ [(ty, rc)]) @ zip tys rcs1) a' w'"
    by blast
  then show ?case using r by simp
qed

lemma add_Inr_cases [consumes 3, case_names unknown known]:
  assumes r: "txgbe_add_hwmon_attr e a ty w = Inr (rc, a1, w1)"
    and p: "hwmon_list (txgbe_hwmon_buff a) = Some p"
    and t: "heap w p = Some tbl"
  obtains "\<not> known ty" "rc = - EPERM" "a1 = a" "w1 = w"
  | "known ty" "n_hwmon (txgbe_hwmon_buff a) < length tbl" "rc = create_ret_at w 0"
    "a1 = (if rc = 0 then set_n_hwmon (Suc (n_hwmon (txgbe_hwmon_buff a))) a else a)"
    "w1 = w\<lparr>heap := (heap w)(p \<mapsto> tbl[n_hwmon (txgbe_hwmon_buff a) := attr_of e ty]),
            files := removeAll (name (attr_of e ty)) (files w) @
                     (if rc = 0 then [name (attr_of e ty)] else []),
            create_rets := tl (create_rets w),
            trace := trace w @ attempt_events (name (attr_of e ty)) rc\<rparr>"
proof (cases "known ty")
  case False
  with r that(1) show ?thesis by (simp add: add_unknown)
next
  case True
  have n: "n_hwmon (txgbe_hwmon_buff a) < length tbl"
    using r True p t by (rule add_known_bounds)
  from r have "rc = create_ret_at w 0"
    "a1 = (if rc = 0 then set_n_hwmon (Suc (n_hwmon (txgbe_hwmon_buff a))) a else a)"
    "w1 = w\<lparr>heap := (heap w)(p \<mapsto> tbl[n_hwmon (txgbe_hwmon_buff a) := attr_of e ty]),
            files := removeAll (name (attr_of e ty)) (files w) @
                     (if rc = 0 then [name (attr_of e ty)] else []),
            create_rets := tl (create_rets w),
            trace := trace w @ attempt_events (name (attr_of e ty)) rc\<rparr>"
    by (auto simp: add_step [OF True p t n])
  with that(2) [OF True n] show ?thesis
    by blast
qed

lemma EPERM_nonzero [simp]: "- EPERM \<noteq> 0" "EPERM \<noteq> 0"
  by (simp_all add: EPERM_def)

lemma set_n_hwmon_simps [simp]:
  "n_hwmon (txgbe_hwmon_buff (set_n_hwmon n a)) = n"
  "hwmon_list (txgbe_hwmon_buff (set_n_hwmon n a)) = hwmon_list (txgbe_hwmon_buff a)"
  "device (txgbe_hwmon_buff (set_n_hwmon n a)) = device (txgbe_hwmon_buff a)"
  "hw (set_n_hwmon n a) = hw a"
  by (simp_all add: set_n_hwmon_def)

lemma tab_inv_step:
  assumes inv: "tab_inv e p L h a w"
    and r: "txgbe_add_hwmon_attr e a ty w = Inr (rc, a1, w1)"
  shows "tab_inv e p L (h @ [(ty, rc)]) a1 w1"
proof -
  from inv obtain tbl where
    p: "hwmon_list (txgbe_hwmon_buff a) = Some p"
    and t: "heap w p = Some tbl" and len: "length tbl = L"
    and n: "n_hwmon (txgbe_hwmon_buff a) = length (filter (\<lambda>(ty, rc). rc = 0) h)"
    and kn: "\<forall>(ty, rc) \<in> set h. rc = 0 \<longrightarrow> known ty"
    and pre: "take (n_hwmon (txgbe_hwmon_buff a)) tbl =
          map (\<lambda>(ty, rc). attr_of e ty) (filter (\<lambda>(ty, rc). rc = 0) h)"
    and le: "n_hwmon (txgbe_hwmon_buff a) \<le> L"
    by (auto simp: tab_inv_def)
  from r p t show ?thesis
  proof (cases rule: add_Inr_cases)
    case unknown
    with inv show ?thesis by (auto simp: tab_inv_def)
  next
    case known
    show ?thesis
    proof (cases "rc = 0")
      case True
      have "take (Suc (n_hwmon (txgbe_hwmon_buff a))) (tbl[n_hwmon (txgbe_hwmon_buff a) := attr_of e ty])
            = take (n_hwmon (txgbe_hwmon_buff a)) tbl @ [attr_of e ty]"
        using known(2) by (simp add: take_Suc_conv_app_nth)
      with True known p len n kn pre show ?thesis
        by (auto simp: tab_inv_def)
    next
      case False
      with known p len n kn pre le t show ?thesis
        by (auto simp: tab_inv_def)
    qed
  qed
qed

lemma tab_invD:
  assumes "tab_inv e p L h a w"
  obtains tbl where "hwmon_list (txgbe_hwmon_buff a) = Some p" "heap w p = Some tbl"
  using assms by (auto simp: tab_inv_def)

lemma frame_inv_step:
  assumes tab: "tab_inv e p L h a w" and inv: "frame_inv a0 w0 p a w"
    and r: "txgbe_add_hwmon_attr e a ty w = Inr (rc, a1, w1)"
  shows "frame_inv a0 w0 p a1 w1"
proof -
  from tab obtain tbl where p: "hwmon_list (txgbe_hwmon_buff a) = Some p" and t: "heap w p = Some tbl"
    by (rule tab_invD)
  from r p t show ?thesis
  proof (cases rule: add_Inr_cases)
    case unknown
    with inv show ?thesis by simp
  next
    case known
    with inv show ?thesis by (simp add: frame_inv_def)
  qed
qed

lemma tried_snoc:
  "tried e (h @ [(ty, rc)]) = (if known ty then insert (name (attr_of e ty)) (tried e h) else tried e h)"
  by (auto simp: tried_def)

lemma made_snoc:
  "made e (h @ [(ty, rc)]) = (if rc = 0 then insert (name (attr_of e ty)) (made e h) else made e h)"
  by (auto simp: made_def)

lemma filter_insert_notin:
  "filter (\<lambda>x. x \<notin> insert n T) xs = filter (\<lambda>x. x \<noteq> n) (filter (\<lambda>x. x \<notin> T) xs)"
  by (induction xs) auto

lemma filter_attempt:
  "filter (\<lambda>x. x \<notin> insert n T) (removeAll n xs @ (if c then [n] else []))
   = filter (\<lambda>x. x \<notin> insert n T) xs"
  by (induction xs) auto

lemma files_inv_step:
  assumes tab: "tab_inv e p L h a w" and inv: "files_inv e F0 h w"
    and r: "txgbe_add_hwmon_attr e a ty w = Inr (rc, a1, w1)"
  shows "files_inv e F0 (h @ [(ty, rc)]) w1"
proof -
  from tab obtain tbl where p: "hwmon_list (txgbe_hwmon_buff a) = Some p" and t: "heap w p = Some tbl"
    by (rule tab_invD)
  from r p t show ?thesis
  proof (cases rule: add_Inr_cases)
    case unknown
    with inv show ?thesis by (simp add: files_inv_def tried_snoc made_snoc)
  next
    case known
    let ?n = "name (attr_of e ty)"
    from inv have f1: "filter (\<lambda>x. x \<notin> tried e h) (files w) = filter (\<lambda>x. x \<notin> tried e h) F0"
      and f2: "\<forall>x \<in> set (files w). x \<in> tried e h \<longrightarrow> x \<in> made e h"
      by (simp_all add: files_inv_def)
    have fw: "files w1 = removeAll ?n (files w) @ (if rc = 0 then [?n] else [])"
      using known(5) by simp
    have "filter (\<lambda>x. x \<notin> insert ?n (tried e h)) (files w1)
          = filter (\<lambda>x. x \<notin> insert ?n (tried e h)) (files w)"
      unfolding fw by (rule filter_attempt)
    also have "\<dots> = filter (\<lambda>x. x \<noteq> ?n) (filter (\<lambda>x. x \<notin> tried e h) (files w))"
      by (rule filter_insert_notin)
    also have "\<dots> = filter (\<lambda>x. x \<noteq> ?n) (filter (\<lambda>x. x \<notin> tried e h) F0)"
      by (simp only: f1)
    also have "\<dots> = filter (\<lambda>x. x \<notin> insert ?n (tried e h)) F0"
      by (rule filter_insert_notin [symmetric])
    finally have g1: "filter (\<lambda>x. x \<notin> insert ?n (tried e h)) (files w1)
          = filter (\<lambda>x. x \<notin> insert ?n (tried e h)) F0" .
    have g2: "\<forall>x \<in> set (files w1). x \<in> insert ?n (tried e h) \<longrightarrow>
            x \<in> (if rc = 0 then insert ?n (made e h) else made e h)"
      using f2 by (auto simp: fw)
    from g1 g2 known(1) show ?thesis
      by (simp add: files_inv_def tried_snoc made_snoc)
  qed
qed

lemma trace_inv_step:
  assumes tab: "tab_inv e p L h a w" and inv: "trace_inv e T0 h w"
    and r: "txgbe_add_hwmon_attr e a ty w = Inr (rc, a1, w1)"
  shows "trace_inv e T0 (h @ [(ty, rc)]) w1"
proof -
  from tab obtain tbl where p: "hwmon_list (txgbe_hwmon_buff a) = Some p" and t: "heap w p = Some tbl"
    by (rule tab_invD)
  from r p t show ?thesis
  proof (cases rule: add_Inr_cases)
    case unknown
    with inv show ?thesis by (simp add: trace_inv_def)
  next
    case known
    with inv show ?thesis by (simp add: trace_inv_def)
  qed
qed

lemma oracle_inv_step:
  assumes tab: "tab_inv e p L h a w" and inv: "oracle_inv C0 h w"
    and r: "txgbe_add_hwmon_attr e a ty w = Inr (rc, a1, w1)"
  shows "oracle_inv C0 (h @ [(ty, rc)]) w1"
proof -
  from tab obtain tbl where p: "hwmon_list (txgbe_hwmon_buff a) = Some p" and t: "heap w p = Some tbl"
    by (rule tab_invD)
  from r p t show ?thesis
  proof (cases rule: add_Inr_cases)
    case unknown
    with inv show ?thesis by (simp add: oracle_inv_def)
  next
    case known
    let ?k = "length (filter (\<lambda>(ty, rc). known ty) h)"
    from inv have c: "create_rets w = drop ?k C0"
      by (simp add: oracle_inv_def)
    have "rc = (if ?k < length C0 then C0 ! ?k else 0)"
      using known(3) c by (simp add: create_ret_at_def)
    moreover have "tl (drop ?k C0) = drop (Suc ?k) C0"
      by (simp add: drop_Suc tl_drop)
    ultimately show ?thesis
      using inv known c by (simp add: oracle_inv_def)
  qed
qed

lemma add_seq_facts:
  assumes run: "add_seq e tys a w = Inr (rcs, a', w')"
    and p: "hwmon_list (txgbe_hwmon_buff a) = Some p"
    and t: "heap w p = Some tbl"
    and n0: "n_hwmon (txgbe_hwmon_buff a) = 0"
  shows "length rcs = length tys"
    and "tab_inv e p (length tbl) (zip tys rcs) a' w'"
    and "frame_inv a w p a' w'"
    and "files_inv e (files w) (zip tys rcs) w'"
    and "trace_inv e (trace w) (zip tys rcs) w'"
    and "oracle_inv (create_rets w) (zip tys rcs) w'"
proof -
  let ?I = "\<lambda>h a1 w1. tab_inv e p (length tbl) h a1 w1 \<and> frame_inv a w p a1 w1 \<and>
     files_inv e (files w) h w1 \<and> trace_inv e (trace w) h w1 \<and> oracle_inv (create_rets w) h w1"
  have i0: "?I [] a w"
    using p t n0
    by (simp add: tab_inv_def frame_inv_def files_inv_def trace_inv_def oracle_inv_def tried_def)
  have "length rcs = length tys \<and> ?I ([] @ zip tys rcs) a' w'"
    using run i0
  proof (rule add_seq_invariant [where I = ?I])
    fix ty h a1 w1 rc a2 w2
    assume i: "?I h a1 w1" and r: "txgbe_add_hwmon_attr e a1 ty w1 = Inr (rc, a2, w2)"
    from i r show "?I (h @ [(ty, rc)]) a2 w2"
      by (blast intro: tab_inv_step frame_inv_step files_inv_step trace_inv_step oracle_inv_step)
  qed
  then show "length rcs = length tys"
    and "tab_inv e p (length tbl) (zip tys rcs) a' w'"
    and "frame_inv a w p a' w'"
    and "files_inv e (files w) (zip tys rcs) w'"
    and "trace_inv e (trace w) (zip tys rcs) w'"
    and "oracle_inv (create_rets w) (zip tys rcs) w'"
    by simp_all
qed

lemma add_seq_no_fault:
  assumes "hwmon_list (txgbe_hwmon_buff a) = Some p" "heap w p = Some tbl"
    "n_hwmon (txgbe_hwmon_buff a) + length tys \<le> length tbl"
  shows "\<exists>r. add_seq e tys a w = Inr r"
  using assms
proof (induction tys arbitrary: a w tbl)
  case Nil
  then show ?case by simp
next
  case (Cons ty tys)
  show ?case
  proof (cases "known ty")
    case False
    have "\<exists>r. add_seq e tys a w = Inr r"
      by (rule Cons.IH [OF Cons.prems(1) Cons.prems(2)]) (use Cons.prems(3) in simp)
    then show ?thesis
      using False by (auto simp: add_unknown)
  next
    case True
    have n: "n_hwmon (txgbe_hwmon_buff a) < length tbl"
      using Cons.prems(3) by simp
    note st = add_step [OF True Cons.prems(1) Cons.prems(2) n, of e]
    obtain rc a1 w1 where r: "txgbe_add_hwmon_attr e a ty w = Inr (rc, a1, w1)"
      and p1: "hwmon_list (txgbe_hwmon_buff a1) = Some p"
      and t1: "heap w1 p = Some (tbl[n_hwmon (txgbe_hwmon_buff a) := attr_of e ty])"
      and n1: "n_hwmon (txgbe_hwmon_buff a1) \<le> Suc (n_hwmon (txgbe_hwmon_buff a))"
      using st Cons.prems(1) by (cases "create_ret_at w 0 = 0") auto
    have "\<exists>r. add_seq e tys a1 w1 = Inr r"
      by (rule Cons.IH [OF p1 t1]) (use n1 Cons.prems(3) in simp)
    then show ?thesis
      using r by auto
  qed
qed

lemma populate_add_seq:
  "sysfs_init_populate e a w =
     fbind (add_seq e populate_types a w) (\<lambda>(rcs, a3, w3).
       let rc = (rcs ! 0 OR rcs ! 1) OR rcs ! 2
       in if rc \<noteq> 0 then sysfs_init_err rc (Some a3) w3 else Inr (rc, Some a3, w3))"
  by (auto simp: sysfs_init_populate_def populate_types_def fbind_def Let_def
      split: sum.splits prod.splits)

section \<open>The teardown\<close>

lemma filter_removeAll:
  "filter (\<lambda>x. x \<notin> S) (removeAll n xs) = filter (\<lambda>x. x \<notin> insert n S) xs"
  by (induction xs) auto

lemma del_loop_ok:
  assumes "n \<le> length tbl"
    and "\<forall>d \<in> set (drop i (take n tbl)). attr_name d = Some (name d)"
  shows "del_loop tbl i n w =
     Inr (w\<lparr>files := filter (\<lambda>x. x \<notin> set (map name (drop i (take n tbl)))) (files w),
            trace := trace w @ map (\<lambda>d. Device_remove_file (name d)) (drop i (take n tbl))\<rparr>)"
  using assms
proof (induction tbl i n w rule: del_loop.induct)
  case (1 tbl i n w)
  show ?case
  proof (cases "i < n")
    case False
    then show ?thesis
      by (simp add: del_loop.simps [of tbl i n w])
  next
    case True
    with "1.prems"(1) have il: "i < length tbl" by simp
    have dr: "drop i (take n tbl) = tbl ! i # drop (Suc i) (take n tbl)"
      using True "1.prems"(1) by (simp add: Cons_nth_drop_Suc [symmetric])
    have nm: "attr_name (tbl ! i) = Some (name (tbl ! i))"
      using "1.prems"(2) dr by simp
    let ?w1 = "emit (Device_remove_file (name (tbl ! i))) (w\<lparr>files := removeAll (name (tbl ! i)) (files w)\<rparr>)"
    have rm: "device_remove_file (tbl ! i) w = Inr ?w1"
      by (simp add: device_remove_file_def nm)
    have rest: "\<forall>d \<in> set (drop (Suc i) (take n tbl)). attr_name d = Some (name d)"
      using "1.prems"(2) dr by simp
    have ih: "del_loop tbl (Suc i) n ?w1 =
       Inr (?w1\<lparr>files := filter (\<lambda>x. x \<notin> set (map name (drop (Suc i) (take n tbl)))) (files ?w1),
            trace := trace ?w1 @ map (\<lambda>d. Device_remove_file (name d)) (drop (Suc i) (take n tbl))\<rparr>)"
      using True il rm "1.prems"(1) rest by (rule "1.IH")
    have fl: "filter (\<lambda>x. x \<notin> set (map name (drop (Suc i) (take n tbl)))) (removeAll (name (tbl ! i)) (files w))
          = filter (\<lambda>x. x \<notin> set (map name (drop i (take n tbl)))) (files w)"
      unfolding dr by (simp add: filter_removeAll)
    have "del_loop tbl i n w = del_loop tbl (Suc i) n ?w1"
      using True il by (simp add: del_loop.simps [of tbl i n w] rm)
    also note ih
    also have "?w1\<lparr>files := filter (\<lambda>x. x \<notin> set (map name (drop (Suc i) (take n tbl)))) (files ?w1),
            trace := trace ?w1 @ map (\<lambda>d. Device_remove_file (name d)) (drop (Suc i) (take n tbl))\<rparr>
        = w\<lparr>files := filter (\<lambda>x. x \<notin> set (map name (drop i (take n tbl)))) (files w),
            trace := trace w @ map (\<lambda>d. Device_remove_file (name d)) (drop i (take n tbl))\<rparr>"
      using fl by (simp add: emit_def) (simp add: dr)
    finally show ?thesis .
  qed
qed

lemma set_fields_simps [simp]:
  "n_hwmon (txgbe_hwmon_buff (set_device d a)) = n_hwmon (txgbe_hwmon_buff a)"
  "hwmon_list (txgbe_hwmon_buff (set_device d a)) = hwmon_list (txgbe_hwmon_buff a)"
  "device (txgbe_hwmon_buff (set_device d a)) = d"
  "hw (set_device d a) = hw a"
  "n_hwmon (txgbe_hwmon_buff (set_hwmon_list q a)) = n_hwmon (txgbe_hwmon_buff a)"
  "hwmon_list (txgbe_hwmon_buff (set_hwmon_list q a)) = q"
  "device (txgbe_hwmon_buff (set_hwmon_list q a)) = device (txgbe_hwmon_buff a)"
  "hw (set_hwmon_list q a) = hw a"
  by (simp_all add: set_device_def set_hwmon_list_def)

lemma torn_down_eq:
  "set_n_hwmon 0 (set_device 0 (set_hwmon_list None a)) = torn_down a"
  "hwmon_list (txgbe_hwmon_buff a) = None \<Longrightarrow> set_n_hwmon 0 (set_device 0 a) = torn_down a"
  by (cases a; cases "txgbe_hwmon_buff a";
      simp add: set_n_hwmon_def set_device_def set_hwmon_list_def torn_down_def)+

lemma del_device_ok:
  assumes "IS_ERR_OR_NULL (device (txgbe_hwmon_buff a)) \<or> device (txgbe_hwmon_buff a) \<in> set (hwmon_devs w)"
  shows "del_device a w =
     Inr (set_n_hwmon 0 (set_device 0 a),
          w\<lparr>hwmon_devs := (if IS_ERR_OR_NULL (device (txgbe_hwmon_buff a)) then hwmon_devs w
                      else remove1 (device (txgbe_hwmon_buff a)) (hwmon_devs w)),
            trace := trace w @ (if IS_ERR_OR_NULL (device (txgbe_hwmon_buff a)) then []
                 else [Hwmon_device_unregister (device (txgbe_hwmon_buff a))])\<rparr>)"
  using assms by (auto simp: del_device_def hwmon_device_unregister_def emit_def)

lemma del_adapter_ok:
  assumes ok: "registry_ok a w"
  shows "txgbe_sysfs_del_adapter (Some a) w = Inr (Some (torn_down a), teardown_world a w)"
proof -
  from ok have dv: "IS_ERR_OR_NULL (device (txgbe_hwmon_buff a)) \<or>
      device (txgbe_hwmon_buff a) \<in> set (hwmon_devs w)"
    by (simp add: registry_ok_def)
  show ?thesis
  proof (cases "hwmon_list (txgbe_hwmon_buff a)")
    case None
    then show ?thesis
      using dv
      by (simp add: txgbe_sysfs_del_adapter_def del_device_ok torn_down_eq
          teardown_world_def live_attrs_def)
  next
    case (Some p)
    with ok obtain tbl where t: "heap w p = Some tbl"
      and n: "n_hwmon (txgbe_hwmon_buff a) \<le> length tbl"
      and nm: "\<forall>d \<in> set (take (n_hwmon (txgbe_hwmon_buff a)) tbl). attr_name d = Some (name d)"
      by (auto simp: registry_ok_def list_all_iff split: option.splits)
    have lp: "del_loop tbl 0 (n_hwmon (txgbe_hwmon_buff a)) w =
       Inr (w\<lparr>files := filter (\<lambda>x. x \<notin> set (map name (take (n_hwmon (txgbe_hwmon_buff a)) tbl))) (files w),
            trace := trace w @ map (\<lambda>d. Device_remove_file (name d)) (take (n_hwmon (txgbe_hwmon_buff a)) tbl)\<rparr>)"
      using del_loop_ok [of "n_hwmon (txgbe_hwmon_buff a)" tbl 0 w] n nm by simp
    show ?thesis
      using Some t dv
      by (simp add: txgbe_sysfs_del_adapter_def lp kfree_def emit_def del_device_ok torn_down_eq
          teardown_world_def live_attrs_def)
  qed
qed

lemma torn_down_simps [simp]:
  "hw (torn_down a) = hw a"
  "n_hwmon (txgbe_hwmon_buff (torn_down a)) = 0"
  "device (txgbe_hwmon_buff (torn_down a)) = 0"
  "hwmon_list (txgbe_hwmon_buff (torn_down a)) = None"
  "torn_down (torn_down a) = torn_down a"
  by (simp_all add: torn_down_def)

lemma registry_ok_torn_down [simp]: "registry_ok (torn_down a) w"
  by (simp add: registry_ok_def IS_ERR_OR_NULL_def)

lemma teardown_world_torn_down [simp]: "teardown_world (torn_down a) w = w"
  by (simp add: teardown_world_def live_attrs_def IS_ERR_OR_NULL_def)

section \<open>The accessors, the null adapter and the absent sensor\<close>

lemma sprintf_mod:
  "unat (word_of_int t * 1000 :: 32 word) = nat ((t * 1000) mod 2 ^ 32)"
proof -
  have "(word_of_int t * 1000 :: 32 word) = word_of_int (t * 1000)"
    by simp
  then show ?thesis
    by (simp only: unat_eq_nat_uint uint_word_of_int) simp
qed

lemma dec_45000: "dec 45000 = ''45000''"
  by (simp add: dec.simps digit_char_def)

lemma dec_int_nonneg: "0 \<le> i \<Longrightarrow> dec_int i = dec (nat i)"
  by (simp add: dec_int_def)

text \<open>
  C10.  A null adapter: \<open>txgbe_sysfs_init\<close> returns 0, because the null check jumps to
  the cleanup label while \<open>rc\<close> is still 0, and the teardown called there returns at once
  on a null adapter and leaves the world as it was.
\<close>

theorem txgbe_sysfs_init_null_adapter:
  "txgbe_sysfs_init e None w = Inr (0, None, w) \<and> txgbe_sysfs_del_adapter None w = Inr (None, w)"
  by (simp add: txgbe_sysfs_init_def sysfs_init_err_def txgbe_sysfs_del_adapter_def)

text \<open>
  C2.  When the threshold initialisation of the HAL returns non-zero, \<open>txgbe_sysfs_init\<close>
  returns 0, the registry fields of the adapter are what they were (so a count of 0 and
  null pointers stay 0 and null), no block is allocated, no file and no hwmon device is
  registered: the only call made is the HAL's.
\<close>

theorem txgbe_sysfs_init_no_sensor:
  assumes "fst (init_thermal_sensor_thresh e (hw a)) \<noteq> 0"
  shows "\<exists>a' w'. txgbe_sysfs_init e (Some a) w = Inr (0, Some a', w') \<and>
     txgbe_hwmon_buff a' = txgbe_hwmon_buff a \<and>
     heap w' = heap w \<and> brk w' = brk w \<and> files w' = files w \<and> hwmon_devs w' = hwmon_devs w \<and>
     trace w' = trace w @ [Tcall_init_thermal_sensor_thresh] \<and>
     (n_hwmon (txgbe_hwmon_buff a) = 0 \<and> device (txgbe_hwmon_buff a) = 0 \<and>
      hwmon_list (txgbe_hwmon_buff a) = None \<longrightarrow>
        n_hwmon (txgbe_hwmon_buff a') = 0 \<and> device (txgbe_hwmon_buff a') = 0 \<and>
        hwmon_list (txgbe_hwmon_buff a') = None)"
proof -
  obtain r h1 where i: "init_thermal_sensor_thresh e (hw a) = (r, h1)"
    by (cases "init_thermal_sensor_thresh e (hw a)")
  with assms have "r \<noteq> 0"
    by simp
  then show ?thesis
    by (simp add: txgbe_sysfs_init_def i emit_def)
qed

theorem txgbe_sysfs_init_no_sensor_witness:
  "fst (init_thermal_sensor_thresh ex_env_no_sensor (hw ex_adapter)) \<noteq> 0 \<and>
   (\<exists>a' w'. txgbe_sysfs_init ex_env_no_sensor (Some ex_adapter) ex_world = Inr (0, Some a', w') \<and>
      n_hwmon (txgbe_hwmon_buff a') = 0 \<and> device (txgbe_hwmon_buff a') = 0 \<and>
      hwmon_list (txgbe_hwmon_buff a') = None \<and>
      heap w' = heap ex_world \<and> files w' = files ex_world \<and> hwmon_devs w' = hwmon_devs ex_world)"
proof -
  have h: "fst (init_thermal_sensor_thresh ex_env_no_sensor (hw ex_adapter)) \<noteq> 0"
    by (simp add: ex_env_no_sensor_def ex_env_def)
  have z: "n_hwmon (txgbe_hwmon_buff ex_adapter) = 0 \<and> device (txgbe_hwmon_buff ex_adapter) = 0 \<and>
      hwmon_list (txgbe_hwmon_buff ex_adapter) = None"
    by (simp add: ex_adapter_def)
  from txgbe_sysfs_init_no_sensor [OF h, of ex_world] z h show ?thesis
    by auto
qed

text \<open>
  C5, as the code has it.  \<open>txgbe_hwmon_show_temp\<close> first lets the HAL refresh the sensor
  record and then prints the refreshed \<open>temp\<close> times 1000, computed in \<^verbatim>\<open>unsigned int\<close>
  (so modulo \<open>2 ^ 32\<close>) and printed with \<^verbatim>\<open>%u\<close>, followed by a newline.  For a refreshed
  \<open>temp\<close> from 0 to 4294967 that is the decimal representation of \<open>temp * 1000\<close>; for
  45 it is the text 45000 and a newline.  The state returned is the refreshed one.
\<close>

theorem txgbe_hwmon_show_temp_millidegrees:
  "(let h1 = snd (get_thermal_sensor_data e h);
        t = temp (sensor h1);
        buf = dec (nat ((t * 1000) mod 2 ^ 32)) @ [CHR 0x0A]
    in txgbe_hwmon_show_temp e h w =
         ((buf, int (length buf)), h1, w\<lparr>trace := trace w @ [Tcall_get_thermal_sensor_data]\<rparr>) \<and>
       (0 \<le> t \<and> t \<le> 4294967 \<longrightarrow> buf = dec_int (t * 1000) @ [CHR 0x0A]) \<and>
       (t = 45 \<longrightarrow> buf = ''45000'' @ [CHR 0x0A]))"
  by (auto simp: txgbe_hwmon_show_temp_def Let_def sprintf_u_nl_def sprintf_mod emit_def
      dec_int_nonneg dec_45000)

theorem txgbe_hwmon_show_temp_millidegrees_witness:
  "0 \<le> temp (sensor (snd (get_thermal_sensor_data ex_env ex_hw))) \<and>
   temp (sensor (snd (get_thermal_sensor_data ex_env ex_hw))) \<le> 4294967 \<and>
   temp (sensor (snd (get_thermal_sensor_data ex_env ex_hw))) = 45 \<and>
   fst (txgbe_hwmon_show_temp ex_env ex_hw ex_world) = (''45000'' @ [CHR 0x0A], 6) \<and>
   dec_int (45 * 1000) = ''45000''"
proof -
  have t: "temp (sensor (snd (get_thermal_sensor_data ex_env ex_hw))) = 45"
    by (simp add: ex_env_def)
  from txgbe_hwmon_show_temp_millidegrees [of ex_env ex_hw ex_world] t show ?thesis
    by (simp add: Let_def dec_45000 dec_int_def)
qed

theorem txgbe_hwmon_show_temp_counterexample:
  "temp (sensor (snd (get_thermal_sensor_data ex_env_cold ex_hw))) = - 1 \<and>
   fst (fst (txgbe_hwmon_show_temp ex_env_cold ex_hw ex_world)) = ''4294966296'' @ [CHR 0x0A] \<and>
   fst (fst (txgbe_hwmon_show_temp ex_env_cold ex_hw ex_world)) \<noteq>
     dec_int (temp (sensor (snd (get_thermal_sensor_data ex_env_cold ex_hw))) * 1000) @ [CHR 0x0A]"
  by (simp add: txgbe_hwmon_show_temp_def Let_def sprintf_u_nl_def ex_env_cold_def ex_env_def
      dec_int_def dec.simps digit_char_def)

lemma dec_90000: "dec 90000 = ''90000''"
  by (simp add: dec.simps digit_char_def)

lemma dec_100000: "dec 100000 = ''100000''"
  by (simp add: dec.simps digit_char_def)

text \<open>
  C7, as the code has it.  \<open>txgbe_hwmon_show_alarmthresh\<close> and
  \<open>txgbe_hwmon_show_dalarmthresh\<close> make no HAL call and return the hardware handle and
  the world exactly as they got them, whatever the HAL operations are; each prints its
  own threshold field times 1000, computed in \<^verbatim>\<open>unsigned int\<close> (modulo \<open>2 ^ 32\<close>), and a
  newline.  For a threshold from 0 to 4294967 that is the decimal representation of
  \<open>threshold * 1000\<close>.
\<close>

theorem txgbe_hwmon_show_thresholds_pure:
  "(let ta = alarm_thresh (sensor h);
        td = dalarm_thresh (sensor h);
        bufa = dec (nat ((ta * 1000) mod 2 ^ 32)) @ [CHR 0x0A];
        bufd = dec (nat ((td * 1000) mod 2 ^ 32)) @ [CHR 0x0A]
    in txgbe_hwmon_show_alarmthresh e h w = ((bufa, int (length bufa)), h, w) \<and>
       txgbe_hwmon_show_dalarmthresh e h w = ((bufd, int (length bufd)), h, w) \<and>
       (0 \<le> ta \<and> ta \<le> 4294967 \<longrightarrow> bufa = dec_int (ta * 1000) @ [CHR 0x0A]) \<and>
       (0 \<le> td \<and> td \<le> 4294967 \<longrightarrow> bufd = dec_int (td * 1000) @ [CHR 0x0A]))"
  by (auto simp: txgbe_hwmon_show_alarmthresh_def txgbe_hwmon_show_dalarmthresh_def Let_def
      sprintf_u_nl_def sprintf_mod dec_int_nonneg)

theorem txgbe_hwmon_show_thresholds_pure_witness:
  "0 \<le> alarm_thresh (sensor ex_hw_thresh) \<and> alarm_thresh (sensor ex_hw_thresh) \<le> 4294967 \<and>
   0 \<le> dalarm_thresh (sensor ex_hw_thresh) \<and> dalarm_thresh (sensor ex_hw_thresh) \<le> 4294967 \<and>
   txgbe_hwmon_show_alarmthresh ex_env ex_hw_thresh ex_world =
     ((''90000'' @ [CHR 0x0A], 6), ex_hw_thresh, ex_world) \<and>
   txgbe_hwmon_show_dalarmthresh ex_env ex_hw_thresh ex_world =
     ((''100000'' @ [CHR 0x0A], 7), ex_hw_thresh, ex_world) \<and>
   dec_int (alarm_thresh (sensor ex_hw_thresh) * 1000) = ''90000'' \<and>
   dec_int (dalarm_thresh (sensor ex_hw_thresh) * 1000) = ''100000''"
proof -
  have t: "alarm_thresh (sensor ex_hw_thresh) = 90" "dalarm_thresh (sensor ex_hw_thresh) = 100"
    by (simp_all add: ex_hw_thresh_def)
  from txgbe_hwmon_show_thresholds_pure [of ex_hw_thresh ex_env ex_world] t show ?thesis
    by (simp add: Let_def dec_90000 dec_100000 dec_int_def)
qed

theorem txgbe_hwmon_show_alarmthresh_counterexample:
  "alarm_thresh (sensor ex_hw_neg_thresh) = - 1 \<and>
   fst (fst (txgbe_hwmon_show_alarmthresh ex_env ex_hw_neg_thresh ex_world)) =
     ''4294966296'' @ [CHR 0x0A] \<and>
   fst (fst (txgbe_hwmon_show_alarmthresh ex_env ex_hw_neg_thresh ex_world)) \<noteq>
     dec_int (alarm_thresh (sensor ex_hw_neg_thresh) * 1000) @ [CHR 0x0A]"
  by (simp add: txgbe_hwmon_show_alarmthresh_def Let_def sprintf_u_nl_def ex_hw_neg_thresh_def
      dec_int_def dec.simps digit_char_def)

section \<open>From the start of the initialisation to the three attempts\<close>

lemma hwmon_register_effect:
  "hwmon_register w = (d, w') \<Longrightarrow> reg_effect w d w'"
  by (auto simp: hwmon_register_def reg_effect_def Let_def emit_def)

lemma reg_effect_trans:
  "reg_effect w d1 w1 \<Longrightarrow> IS_ERR d1 \<Longrightarrow> reg_effect w1 d w' \<Longrightarrow> reg_effect w d w'"
  by (auto simp: reg_effect_def)

lemma hwmon_register_groups_effect:
  assumes "hwmon_register_groups e w = (d, w')"
  shows "reg_effect w d w'"
proof (cases "have_register_with_groups e")
  case False
  with assms show ?thesis
    by (simp add: hwmon_register_groups_def hwmon_register_plain_def hwmon_register_effect)
next
  case True
  obtain d1 w1 where r1: "hwmon_register w = (d1, w1)"
    by (cases "hwmon_register w")
  show ?thesis
  proof (cases "IS_ERR d1")
    case False
    with assms True r1 show ?thesis
      by (auto simp: hwmon_register_groups_def hwmon_register_effect)
  next
    case e1: True
    with assms True r1 have "hwmon_register w1 = (d, w')"
      by (simp add: hwmon_register_groups_def hwmon_register_plain_def)
    then have "reg_effect w1 d w'"
      by (rule hwmon_register_effect)
    with hwmon_register_effect [OF r1] e1 show ?thesis
      by (blast intro: reg_effect_trans)
  qed
qed

lemma txgbe_hwmon_device_register_effect:
  assumes "txgbe_hwmon_device_register e w = (d, w')"
  shows "reg_effect w d w'"
proof (cases "have_register_with_info e")
  case False
  with assms show ?thesis
    by (simp add: txgbe_hwmon_device_register_def hwmon_register_groups_effect)
next
  case True
  obtain d1 w1 where r1: "hwmon_register w = (d1, w1)"
    by (cases "hwmon_register w")
  show ?thesis
  proof (cases "IS_ERR d1")
    case False
    with assms True r1 show ?thesis
      by (auto simp: txgbe_hwmon_device_register_def hwmon_register_effect)
  next
    case e1: True
    with assms True r1 have "hwmon_register_groups e w1 = (d, w')"
      by (simp add: txgbe_hwmon_device_register_def)
    then have "reg_effect w1 d w'"
      by (rule hwmon_register_groups_effect)
    with hwmon_register_effect [OF r1] e1 show ?thesis
      by (blast intro: reg_effect_trans)
  qed
qed

lemma hwmon_register_indep:
  "register_rets w1 = register_rets w2 \<Longrightarrow>
   fst (hwmon_register w1) = fst (hwmon_register w2) \<and>
   register_rets (snd (hwmon_register w1)) = register_rets (snd (hwmon_register w2))"
  by (simp add: hwmon_register_def Let_def emit_def next_register_ret_def)

lemma hwmon_register_groups_indep:
  assumes "register_rets w1 = register_rets w2"
  shows "fst (hwmon_register_groups e w1) = fst (hwmon_register_groups e w2)"
  using hwmon_register_indep [OF assms]
    hwmon_register_indep [of "snd (hwmon_register w1)" "snd (hwmon_register w2)"]
  by (auto simp: hwmon_register_groups_def hwmon_register_plain_def split: prod.splits)

lemma txgbe_hwmon_device_register_indep:
  assumes "register_rets w1 = register_rets w2"
  shows "fst (txgbe_hwmon_device_register e w1) = fst (txgbe_hwmon_device_register e w2)"
  using hwmon_register_indep [OF assms]
    hwmon_register_groups_indep [of "snd (hwmon_register w1)" "snd (hwmon_register w2)" e]
    hwmon_register_groups_indep [OF assms, of e]
  by (auto simp: txgbe_hwmon_device_register_def split: prod.splits)

lemma files_exact_step:
  assumes tab: "tab_inv e p L h a w" and inv: "files_exact e F0 h w"
    and r: "txgbe_add_hwmon_attr e a ty w = Inr (rc, a1, w1)"
  shows "files_exact e F0 (h @ [(ty, rc)]) w1"
proof -
  from tab obtain tbl where p: "hwmon_list (txgbe_hwmon_buff a) = Some p" and t: "heap w p = Some tbl"
    by (rule tab_invD)
  from r p t show ?thesis
  proof (cases rule: add_Inr_cases)
    case unknown
    with inv show ?thesis by (simp add: files_exact_def files_after_def)
  next
    case known
    with inv show ?thesis by (simp add: files_exact_def files_after_def)
  qed
qed

lemma add_seq_files_exact:
  assumes run: "add_seq e tys a w = Inr (rcs, a', w')"
    and p: "hwmon_list (txgbe_hwmon_buff a) = Some p"
    and t: "heap w p = Some tbl"
    and n0: "n_hwmon (txgbe_hwmon_buff a) = 0"
  shows "files w' = files_after e (files w) (zip tys rcs)"
proof -
  let ?I = "\<lambda>h a1 w1. tab_inv e p (length tbl) h a1 w1 \<and> files_exact e (files w) h w1"
  have i0: "?I [] a w"
    using p t n0 by (simp add: tab_inv_def files_exact_def files_after_def)
  have "length rcs = length tys \<and> ?I ([] @ zip tys rcs) a' w'"
    using run i0
  proof (rule add_seq_invariant [where I = ?I])
    fix ty h a1 w1 rc a2 w2
    assume i: "?I h a1 w1" and r: "txgbe_add_hwmon_attr e a1 ty w1 = Inr (rc, a2, w2)"
    from i r show "?I (h @ [(ty, rc)]) a2 w2"
      by (blast intro: tab_inv_step files_exact_step)
  qed
  then show ?thesis
    by (simp add: files_exact_def)
qed

lemma init_reaches_populate:
  assumes i: "init_thermal_sensor_thresh e (hw a) = (0, h1)"
    and k: "\<not> next_kcalloc_fails w"
    and d: "fst (txgbe_hwmon_device_register e w) = d"
    and ok: "\<not> IS_ERR d"
  shows "\<exists>w3 evs. txgbe_sysfs_init e (Some a) w = sysfs_init_populate e (populate_start h1 d (brk w)) w3 \<and>
     files w3 = files w \<and> heap w3 = (heap w)(brk w \<mapsto> replicate 3 zero_attr) \<and>
     brk w3 = Suc (brk w) \<and> hwmon_devs w3 = d # hwmon_devs w \<and>
     create_rets w3 = create_rets w \<and>
     trace w3 = trace w @ Tcall_init_thermal_sensor_thresh # Kcalloc (Some (brk w)) # evs \<and>
     filter is_create evs = []"
proof -
  let ?w1 = "emit Tcall_init_thermal_sensor_thresh w"
  let ?w2 = "emit (Kcalloc (Some (brk w)))
      (w\<lparr>trace := trace w @ [Tcall_init_thermal_sensor_thresh], kcalloc_fails := tl (kcalloc_fails w),
         heap := (heap w)(brk w \<mapsto> replicate 3 zero_attr), brk := Suc (brk w)\<rparr>)"
  have kc: "kcalloc 3 ?w1 = (Some (brk w), ?w2)"
    using k by (simp add: kcalloc_def emit_def next_kcalloc_fails_def Let_def)
  obtain d' w3 where r: "txgbe_hwmon_device_register e ?w2 = (d', w3)"
    by (cases "txgbe_hwmon_device_register e ?w2")
  have "fst (txgbe_hwmon_device_register e ?w2) = fst (txgbe_hwmon_device_register e w)"
    by (rule txgbe_hwmon_device_register_indep) (simp add: emit_def)
  with r d have dd: "d' = d"
    by simp
  from txgbe_hwmon_device_register_effect [OF r] ok dd
  obtain evs where eff: "files w3 = files ?w2" "heap w3 = heap ?w2" "brk w3 = brk ?w2"
    "create_rets w3 = create_rets ?w2" "hwmon_devs w3 = d # hwmon_devs ?w2"
    "trace w3 = trace ?w2 @ evs" "filter is_create evs = []"
    by (auto simp: reg_effect_def)
  have a4: "set_device d (set_hwmon_list (Some (brk w)) (set_n_hwmon 0 (set_device 0 (a\<lparr>hw := h1\<rparr>))))
      = populate_start h1 d (brk w)"
    by (cases a) (simp add: set_device_def set_hwmon_list_def set_n_hwmon_def populate_start_def)
  have "txgbe_sysfs_init e (Some a) w = sysfs_init_populate e (populate_start h1 d (brk w)) w3"
    using ok by (simp add: txgbe_sysfs_init_def i kc r dd a4 del: fun_upd_apply)
  with eff show ?thesis
    by (intro exI [of _ w3] exI [of _ evs]) (simp add: emit_def)
qed

lemma registry_ok_tab_inv:
  assumes "tab_inv e p L h a w"
    and "IS_ERR_OR_NULL (device (txgbe_hwmon_buff a)) \<or> device (txgbe_hwmon_buff a) \<in> set (hwmon_devs w)"
  shows "registry_ok a w"
proof -
  from assms(1) obtain tbl where p: "hwmon_list (txgbe_hwmon_buff a) = Some p"
    and t: "heap w p = Some tbl" and len: "n_hwmon (txgbe_hwmon_buff a) \<le> length tbl"
    and kn: "\<forall>(ty, rc) \<in> set h. rc = 0 \<longrightarrow> known ty"
    and pre: "take (n_hwmon (txgbe_hwmon_buff a)) tbl =
          map (\<lambda>(ty, rc). attr_of e ty) (filter (\<lambda>(ty, rc). rc = 0) h)"
    by (auto simp: tab_inv_def)
  have "\<forall>d \<in> set (take (n_hwmon (txgbe_hwmon_buff a)) tbl). attr_name d = Some (name d)"
    unfolding pre using kn by (auto simp: attr_name_attr_of)
  with p t len assms(2) show ?thesis
    by (simp add: registry_ok_def list_all_iff)
qed

lemma live_attrs_tab_inv:
  assumes "tab_inv e p L h a w"
  shows "map name (live_attrs a w) = map (\<lambda>(ty, rc). name (attr_of e ty)) (filter (\<lambda>(ty, rc). rc = 0) h)"
  using assms by (auto simp: tab_inv_def live_attrs_def)

lemma filter_is_create_attempt [simp]:
  "filter is_create (attempt_events n f) = [Device_create_file n f]"
  by (simp add: attempt_events_def)

lemma known_populate [simp]:
  "known TXGBE_HWMON_TYPE_TEMP" "known TXGBE_HWMON_TYPE_ALARMTHRESH"
  "known TXGBE_HWMON_TYPE_DALARMTHRESH"
  by (simp_all add: known_def)

lemma populate_start_simps [simp]:
  "hw (populate_start h1 d p) = h1"
  "device (txgbe_hwmon_buff (populate_start h1 d p)) = d"
  "hwmon_list (txgbe_hwmon_buff (populate_start h1 d p)) = Some p"
  "n_hwmon (txgbe_hwmon_buff (populate_start h1 d p)) = 0"
  by (simp_all add: populate_start_def)

lemma populate_run:
  assumes t: "heap w p = Some tbl" and len: "length tbl = 3"
  shows "\<exists>a' w'. add_seq e populate_types (populate_start h1 d p) w =
            Inr ([create_ret_at w 0, create_ret_at w 1, create_ret_at w 2], a', w') \<and>
     tab_inv e p 3 (zip populate_types [create_ret_at w 0, create_ret_at w 1, create_ret_at w 2]) a' w' \<and>
     frame_inv (populate_start h1 d p) w p a' w' \<and>
     files_inv e (files w) (zip populate_types [create_ret_at w 0, create_ret_at w 1, create_ret_at w 2]) w' \<and>
     trace_inv e (trace w) (zip populate_types [create_ret_at w 0, create_ret_at w 1, create_ret_at w 2]) w' \<and>
     files w' = files_after e (files w) (zip populate_types [create_ret_at w 0, create_ret_at w 1, create_ret_at w 2])"
proof -
  let ?a = "populate_start h1 d p"
  have p: "hwmon_list (txgbe_hwmon_buff ?a) = Some p" and n0: "n_hwmon (txgbe_hwmon_buff ?a) = 0"
    by simp_all
  have "\<exists>r. add_seq e populate_types ?a w = Inr r"
    using p t by (rule add_seq_no_fault) (simp add: len populate_types_def)
  then obtain rcs a' w' where run: "add_seq e populate_types ?a w = Inr (rcs, a', w')"
    by (metis prod_cases3)
  note f = add_seq_facts [OF run p t n0] add_seq_files_exact [OF run p t n0]
  from f(1) obtain r0 r1 r2 where rcs: "rcs = [r0, r1, r2]"
    by (auto simp: populate_types_def length_Suc_conv)
  from f(6) have "rcs = [create_ret_at w 0, create_ret_at w 1, create_ret_at w 2]"
    by (simp add: oracle_inv_def rcs populate_types_def create_ret_at_def upt_rec [of 0]
        upt_rec [of 1] upt_rec [of 2] numeral_2_eq_2 numeral_3_eq_3)
  with run f len show ?thesis
    by simp
qed

lemma init_populate_outcome:
  assumes i: "init_thermal_sensor_thresh e (hw a) = (0, h1)"
    and k: "\<not> next_kcalloc_fails w"
    and d: "fst (txgbe_hwmon_device_register e w) = d"
    and ok: "\<not> IS_ERR d"
  obtains w3 evs a' w' where
    "heap w3 = (heap w)(brk w \<mapsto> replicate 3 zero_attr)"
    "hwmon_devs w3 = d # hwmon_devs w"
    "trace w3 = trace w @ Tcall_init_thermal_sensor_thresh # Kcalloc (Some (brk w)) # evs"
    "filter is_create evs = []"
    "tab_inv e (brk w) 3 (zip populate_types [create_ret_at w 0, create_ret_at w 1, create_ret_at w 2]) a' w'"
    "frame_inv (populate_start h1 d (brk w)) w3 (brk w) a' w'"
    "files_inv e (files w) (zip populate_types [create_ret_at w 0, create_ret_at w 1, create_ret_at w 2]) w'"
    "trace_inv e (trace w3) (zip populate_types [create_ret_at w 0, create_ret_at w 1, create_ret_at w 2]) w'"
    "files w' = files_after e (files w) (zip populate_types [create_ret_at w 0, create_ret_at w 1, create_ret_at w 2])"
    "txgbe_sysfs_init e (Some a) w =
       (if (create_ret_at w 0 OR create_ret_at w 1) OR create_ret_at w 2 \<noteq> 0
        then Inr ((create_ret_at w 0 OR create_ret_at w 1) OR create_ret_at w 2,
                  Some (torn_down a'), teardown_world a' w')
        else Inr (0, Some a', w'))"
proof -
  let ?p = "brk w"
  let ?a = "populate_start h1 d ?p"
  from init_reaches_populate [OF i k d ok] obtain w3 evs where
    ini: "txgbe_sysfs_init e (Some a) w = sysfs_init_populate e ?a w3"
    and w3: "files w3 = files w" "heap w3 = (heap w)(?p \<mapsto> replicate 3 zero_attr)"
      "hwmon_devs w3 = d # hwmon_devs w" "create_rets w3 = create_rets w"
      "trace w3 = trace w @ Tcall_init_thermal_sensor_thresh # Kcalloc (Some ?p) # evs"
      "filter is_create evs = []"
    by blast
  have cr: "create_ret_at w3 = create_ret_at w"
    by (rule ext) (simp add: create_ret_at_def w3(4))
  have t: "heap w3 ?p = Some (replicate 3 zero_attr)"
    by (simp add: w3(2))
  let ?h = "zip populate_types [create_ret_at w 0, create_ret_at w 1, create_ret_at w 2]"
  let ?rc = "(create_ret_at w 0 OR create_ret_at w 1) OR create_ret_at w 2"
  from populate_run [OF t, of e h1 d] obtain a' w' where
    run: "add_seq e populate_types ?a w3 =
            Inr ([create_ret_at w 0, create_ret_at w 1, create_ret_at w 2], a', w')"
    and inv: "tab_inv e ?p 3 ?h a' w'" "frame_inv ?a w3 ?p a' w'" "files_inv e (files w) ?h w'"
      "trace_inv e (trace w3) ?h w'" "files w' = files_after e (files w) ?h"
    by (auto simp: cr w3(1))
  have dev: "device (txgbe_hwmon_buff a') \<in> set (hwmon_devs w')"
    using inv(2) by (simp add: frame_inv_def w3(3))
  have rok: "registry_ok a' w'"
    using inv(1) dev by (blast intro: registry_ok_tab_inv)
  have res: "txgbe_sysfs_init e (Some a) w =
       (if ?rc \<noteq> 0 then Inr (?rc, Some (torn_down a'), teardown_world a' w') else Inr (0, Some a', w'))"
    by (simp add: ini populate_add_seq run sysfs_init_err_def del_adapter_ok [OF rok])
  from w3(2,3,5,6) inv res show ?thesis
    by (rule that)
qed

section \<open>The outcomes of the initialisation\<close>

lemma dec_0: "dec 0 = ''0''"
  by (simp add: dec.simps digit_char_def)

lemma attr_of_show [simp]:
  "show_ptr (attr_of e TXGBE_HWMON_TYPE_TEMP) = Some Show_temp"
  "show_ptr (attr_of e TXGBE_HWMON_TYPE_ALARMTHRESH) = Some Show_alarmthresh"
  "show_ptr (attr_of e TXGBE_HWMON_TYPE_DALARMTHRESH) = Some Show_dalarmthresh"
  by (simp_all add: attr_of_def fill_attr_def Let_def)

lemma attr_of_name_full:
  assumes "19 \<le> name_size e"
  shows "name (attr_of e TXGBE_HWMON_TYPE_TEMP) = ''temp0_input''"
    and "name (attr_of e TXGBE_HWMON_TYPE_ALARMTHRESH) = ''temp0_alarmthresh''"
    and "name (attr_of e TXGBE_HWMON_TYPE_DALARMTHRESH) = ''temp0_dalarmthresh''"
  using assms
  by (simp_all add: attr_of_def fill_attr_def Let_def snprintf_temp_u_def dec_0)

lemma attr_names_nth:
  "attr_names e ! 0 = name (attr_of e TXGBE_HWMON_TYPE_TEMP)"
  "attr_names e ! 1 = name (attr_of e TXGBE_HWMON_TYPE_ALARMTHRESH)"
  "attr_names e ! Suc 0 = name (attr_of e TXGBE_HWMON_TYPE_ALARMTHRESH)"
  "attr_names e ! 2 = name (attr_of e TXGBE_HWMON_TYPE_DALARMTHRESH)"
  by (simp_all add: attr_names_def populate_types_def)

lemma tried_populate:
  "tried e (zip populate_types [f0, f1, f2]) = set (attr_names e)"
  by (auto simp: tried_def attr_names_def populate_types_def)

lemma made_subset_tried:
  assumes "\<forall>(ty, rc) \<in> set h. rc = 0 \<longrightarrow> known ty"
  shows "made e h \<subseteq> tried e h"
  using assms by (fastforce simp: made_def tried_def)

lemma files_inv_teardown:
  assumes inv: "files_inv e F0 h w"
    and kn: "\<forall>(ty, rc) \<in> set h. rc = 0 \<longrightarrow> known ty"
  shows "filter (\<lambda>x. x \<notin> made e h) (files w) = filter (\<lambda>x. x \<notin> tried e h) F0"
proof -
  from inv have f1: "filter (\<lambda>x. x \<notin> tried e h) (files w) = filter (\<lambda>x. x \<notin> tried e h) F0"
    and f2: "\<forall>x \<in> set (files w). x \<in> tried e h \<longrightarrow> x \<in> made e h"
    by (simp_all add: files_inv_def)
  have "filter (\<lambda>x. x \<notin> made e h) (files w) = filter (\<lambda>x. x \<notin> tried e h) (files w)"
    using f2 made_subset_tried [OF kn, of e] by (intro filter_cong) auto
  with f1 show ?thesis
    by simp
qed

lemma teardown_files_tab_inv:
  assumes tab: "tab_inv e p L h a w" and inv: "files_inv e F0 h w"
  shows "files (teardown_world a w) = filter (\<lambda>x. x \<notin> tried e h) F0"
proof -
  from tab have kn: "\<forall>(ty, rc) \<in> set h. rc = 0 \<longrightarrow> known ty"
    by (simp add: tab_inv_def)
  have "set (map name (live_attrs a w)) = made e h"
    by (auto simp: live_attrs_tab_inv [OF tab] made_def)
  then have "files (teardown_world a w) = filter (\<lambda>x. x \<notin> made e h) (files w)"
    by (simp add: teardown_world_def)
  with files_inv_teardown [OF inv kn] show ?thesis
    by simp
qed

lemma teardown_world_simps:
  "hwmon_list (txgbe_hwmon_buff a) = Some p \<Longrightarrow> heap (teardown_world a w) = (heap w)(p := None)"
  "\<not> IS_ERR_OR_NULL (device (txgbe_hwmon_buff a)) \<Longrightarrow>
     hwmon_devs (teardown_world a w) = remove1 (device (txgbe_hwmon_buff a)) (hwmon_devs w)"
  "IS_ERR_OR_NULL (device (txgbe_hwmon_buff a)) \<Longrightarrow> hwmon_devs (teardown_world a w) = hwmon_devs w"
  "\<exists>post. trace (teardown_world a w) = trace w @ post \<and> filter is_create post = []"
  by (auto simp: teardown_world_def filter_empty_conv split: option.splits)

lemma or3_eq_0: "((x::int) OR y) OR z = 0 \<longleftrightarrow> x = 0 \<and> y = 0 \<and> z = 0"
  by (simp add: or_eq_0_iff)

lemma ex_register: "fst (txgbe_hwmon_device_register ex_env (ex_world\<lparr>create_rets := c\<rparr>)) = 4096"
  by (simp add: txgbe_hwmon_device_register_def hwmon_register_def next_register_ret_def
      ex_env_def ex_world_def Let_def IS_ERR_def MAX_ERRNO_def emit_def)

lemma ex_attr_names:
  "attr_names ex_env = [''temp0_input'', ''temp0_alarmthresh'', ''temp0_dalarmthresh'']"
  by (simp add: attr_names_def populate_types_def attr_of_name_full ex_env_def)

text \<open>
  C1.  The HAL reports a sensor, the table is allocated, the hwmon core hands out a device,
  and at least one of the three file creations fails: \<open>txgbe_sysfs_init\<close> returns a
  non-zero code, and on return the count is 0, the device and table pointers are null, the
  block allocated in this call is freed (no other block is touched), the hwmon device is
  unregistered again, and no file under any of the three attribute names is left,
  whichever of the three creations succeeded.
\<close>

theorem txgbe_sysfs_init_unwinds:
  assumes "fst (init_thermal_sensor_thresh e (hw a)) = 0"
    and "\<not> next_kcalloc_fails w"
    and "\<not> IS_ERR_OR_NULL (fst (txgbe_hwmon_device_register e w))"
    and "create_ret_at w 0 \<noteq> 0 \<or> create_ret_at w 1 \<noteq> 0 \<or> create_ret_at w 2 \<noteq> 0"
  shows "\<exists>rc a' w'. txgbe_sysfs_init e (Some a) w = Inr (rc, Some a', w') \<and> rc \<noteq> 0 \<and>
     n_hwmon (txgbe_hwmon_buff a') = 0 \<and> device (txgbe_hwmon_buff a') = 0 \<and>
     hwmon_list (txgbe_hwmon_buff a') = None \<and>
     heap w' (brk w) = None \<and> (\<forall>q. q \<noteq> brk w \<longrightarrow> heap w' q = heap w q) \<and>
     hwmon_devs w' = hwmon_devs w \<and>
     files w' = filter (\<lambda>x. x \<notin> set (attr_names e)) (files w) \<and>
     (\<forall>n \<in> set (attr_names e). n \<notin> set (files w'))"
proof -
  let ?d = "fst (txgbe_hwmon_device_register e w)"
  let ?h = "zip populate_types [create_ret_at w 0, create_ret_at w 1, create_ret_at w 2]"
  let ?rc = "(create_ret_at w 0 OR create_ret_at w 1) OR create_ret_at w 2"
  obtain h1 where i: "init_thermal_sensor_thresh e (hw a) = (0, h1)"
    using assms(1) by (cases "init_thermal_sensor_thresh e (hw a)") simp
  from assms(3) have ok: "\<not> IS_ERR ?d" and nz: "\<not> IS_ERR_OR_NULL ?d"
    by (simp_all add: IS_ERR_OR_NULL_def)
  obtain w3 evs a' w' where
    w3: "heap w3 = (heap w)(brk w \<mapsto> replicate 3 zero_attr)" "hwmon_devs w3 = ?d # hwmon_devs w"
    and tr3: "trace w3 = trace w @ Tcall_init_thermal_sensor_thresh # Kcalloc (Some (brk w)) # evs"
      "filter is_create evs = []"
    and tab: "tab_inv e (brk w) 3 ?h a' w'"
    and fr: "frame_inv (populate_start h1 ?d (brk w)) w3 (brk w) a' w'"
    and fi: "files_inv e (files w) ?h w'"
    and tr: "trace_inv e (trace w3) ?h w'"
    and fl: "files w' = files_after e (files w) ?h"
    and res: "txgbe_sysfs_init e (Some a) w =
       (if ?rc \<noteq> 0 then Inr (?rc, Some (torn_down a'), teardown_world a' w') else Inr (0, Some a', w'))"
    by (rule init_populate_outcome [OF i assms(2) refl ok])
  have rc: "?rc \<noteq> 0"
    using assms(4) by (simp add: or3_eq_0)
  have p: "hwmon_list (txgbe_hwmon_buff a') = Some (brk w)"
    using tab by (simp add: tab_inv_def)
  have dv: "device (txgbe_hwmon_buff a') = ?d"
    using fr by (simp add: frame_inv_def)
  have hp: "heap (teardown_world a' w') = (heap w')(brk w := None)"
    using p by (rule teardown_world_simps(1))
  have hq: "\<forall>q. q \<noteq> brk w \<longrightarrow> heap w' q = heap w q"
    using fr by (simp add: frame_inv_def w3(1))
  have devs: "hwmon_devs (teardown_world a' w') = hwmon_devs w"
    using fr nz by (simp add: teardown_world_simps(2) dv frame_inv_def w3(2))
  have fl: "files (teardown_world a' w') = filter (\<lambda>x. x \<notin> set (attr_names e)) (files w)"
    using teardown_files_tab_inv [OF tab fi] by (simp add: tried_populate)
  show ?thesis
    using rc res hp hq devs fl by (simp add: rc)
qed

theorem txgbe_sysfs_init_unwinds_witness:
  "fst (init_thermal_sensor_thresh ex_env (hw ex_adapter)) = 0 \<and>
   \<not> next_kcalloc_fails ex_world_fail \<and>
   \<not> IS_ERR_OR_NULL (fst (txgbe_hwmon_device_register ex_env ex_world_fail)) \<and>
   create_ret_at ex_world_fail 0 = 0 \<and> create_ret_at ex_world_fail 1 = - 12 \<and>
   create_ret_at ex_world_fail 2 = 0 \<and>
   (\<exists>rc a' w'. txgbe_sysfs_init ex_env (Some ex_adapter) ex_world_fail = Inr (rc, Some a', w') \<and>
      rc \<noteq> 0 \<and> n_hwmon (txgbe_hwmon_buff a') = 0 \<and> device (txgbe_hwmon_buff a') = 0 \<and>
      hwmon_list (txgbe_hwmon_buff a') = None \<and> heap w' 1 = None \<and> hwmon_devs w' = [] \<and>
      files w' = [''uevent''])"
proof -
  have h1: "fst (init_thermal_sensor_thresh ex_env (hw ex_adapter)) = 0"
    by (simp add: ex_env_def)
  have h2: "\<not> next_kcalloc_fails ex_world_fail"
    by (simp add: next_kcalloc_fails_def ex_world_fail_def ex_world_def)
  have h3: "\<not> IS_ERR_OR_NULL (fst (txgbe_hwmon_device_register ex_env ex_world_fail))"
    by (simp add: ex_world_fail_def ex_register IS_ERR_OR_NULL_def IS_ERR_def MAX_ERRNO_def)
  have h4: "create_ret_at ex_world_fail 0 \<noteq> 0 \<or> create_ret_at ex_world_fail 1 \<noteq> 0 \<or>
      create_ret_at ex_world_fail 2 \<noteq> 0"
    by (simp add: create_ret_at_def ex_world_fail_def)
  have w: "brk ex_world_fail = 1" "hwmon_devs ex_world_fail = []"
    "files ex_world_fail = [''temp0_input'', ''uevent'']"
    by (simp_all add: ex_world_fail_def ex_world_def)
  have c: "create_ret_at ex_world_fail 0 = 0" "create_ret_at ex_world_fail 1 = - 12"
    "create_ret_at ex_world_fail 2 = 0"
    by (simp_all add: create_ret_at_def ex_world_fail_def)
  from txgbe_sysfs_init_unwinds [OF h1 h2 h3 h4] h1 h2 h3 c show ?thesis
    by (simp add: w ex_attr_names) blast
qed

lemma removeAll3:
  "removeAll c (removeAll b (removeAll a xs)) = filter (\<lambda>x. x \<notin> {a, b, c}) xs"
  by (induction xs) auto

lemma files_after_all_created:
  assumes "19 \<le> name_size e"
  shows "files_after e F0 (zip populate_types [0, 0, 0]) =
     filter (\<lambda>x. x \<notin> {''temp0_input'', ''temp0_alarmthresh'', ''temp0_dalarmthresh''}) F0 @
     [''temp0_input'', ''temp0_alarmthresh'', ''temp0_dalarmthresh'']"
  by (simp add: files_after_def populate_types_def attr_of_name_full [OF assms] removeAll3)

text \<open>
  C3.  The HAL reports a sensor, the table is allocated, the hwmon core hands out a device
  and all three file creations succeed (the \<open>name\<close> buffer being large enough for the
  longest name, 19 bytes): \<open>txgbe_sysfs_init\<close> returns 0, the count is 3, the device
  pointer is the non-null one the core returned, the table holds the descriptors of
  \<^verbatim>\<open>temp0_input\<close>, \<^verbatim>\<open>temp0_alarmthresh\<close> and \<^verbatim>\<open>temp0_dalarmthresh\<close> in this order, and exactly these
  three files were created, in this order.
\<close>

theorem txgbe_sysfs_init_active:
  assumes "fst (init_thermal_sensor_thresh e (hw a)) = 0"
    and "\<not> next_kcalloc_fails w"
    and "\<not> IS_ERR_OR_NULL (fst (txgbe_hwmon_device_register e w))"
    and "create_ret_at w 0 = 0" and "create_ret_at w 1 = 0" and "create_ret_at w 2 = 0"
    and "19 \<le> name_size e"
  shows "\<exists>a' w' tbl. txgbe_sysfs_init e (Some a) w = Inr (0, Some a', w') \<and>
     n_hwmon (txgbe_hwmon_buff a') = 3 \<and>
     device (txgbe_hwmon_buff a') = fst (txgbe_hwmon_device_register e w) \<and>
     device (txgbe_hwmon_buff a') \<noteq> 0 \<and>
     hwmon_list (txgbe_hwmon_buff a') = Some (brk w) \<and>
     heap w' (brk w) = Some tbl \<and>
     map name tbl = [''temp0_input'', ''temp0_alarmthresh'', ''temp0_dalarmthresh''] \<and>
     map show_ptr tbl = [Some Show_temp, Some Show_alarmthresh, Some Show_dalarmthresh] \<and>
     files w' =
       filter (\<lambda>x. x \<notin> {''temp0_input'', ''temp0_alarmthresh'', ''temp0_dalarmthresh''}) (files w) @
       [''temp0_input'', ''temp0_alarmthresh'', ''temp0_dalarmthresh''] \<and>
     filter is_create (trace w') =
       filter is_create (trace w) @
       [Device_create_file ''temp0_input'' 0, Device_create_file ''temp0_alarmthresh'' 0,
        Device_create_file ''temp0_dalarmthresh'' 0]"
proof -
  let ?d = "fst (txgbe_hwmon_device_register e w)"
  let ?h = "zip populate_types [0, 0, 0 :: int]"
  obtain h1 where i: "init_thermal_sensor_thresh e (hw a) = (0, h1)"
    using assms(1) by (cases "init_thermal_sensor_thresh e (hw a)") simp
  from assms(3) have ok: "\<not> IS_ERR ?d" and nz: "?d \<noteq> 0"
    by (simp_all add: IS_ERR_OR_NULL_def)
  note nm = attr_of_name_full [OF assms(7)]
  let ?hc = "zip populate_types [create_ret_at w 0, create_ret_at w 1, create_ret_at w 2]"
  let ?rc = "(create_ret_at w 0 OR create_ret_at w 1) OR create_ret_at w 2"
  obtain w3 evs a' w' where
    "heap w3 = (heap w)(brk w \<mapsto> replicate 3 zero_attr)" "hwmon_devs w3 = ?d # hwmon_devs w"
    and w3: "trace w3 = trace w @ Tcall_init_thermal_sensor_thresh # Kcalloc (Some (brk w)) # evs"
      "filter is_create evs = []"
    and tab0: "tab_inv e (brk w) 3 ?hc a' w'"
    and fr: "frame_inv (populate_start h1 ?d (brk w)) w3 (brk w) a' w'"
    and fi: "files_inv e (files w) ?hc w'"
    and tr0: "trace_inv e (trace w3) ?hc w'"
    and fl0: "files w' = files_after e (files w) ?hc"
    and res0: "txgbe_sysfs_init e (Some a) w =
       (if ?rc \<noteq> 0 then Inr (?rc, Some (torn_down a'), teardown_world a' w') else Inr (0, Some a', w'))"
    by (rule init_populate_outcome [OF i assms(2) refl ok])
  from tab0 tr0 fl0 res0 have tab: "tab_inv e (brk w) 3 ?h a' w'"
    and tr: "trace_inv e (trace w3) ?h w'"
    and fl: "files w' = files_after e (files w) ?h"
    and res: "txgbe_sysfs_init e (Some a) w = Inr (0, Some a', w')"
    unfolding assms(4) assms(5) assms(6) by simp_all
  from tab obtain tbl where t: "heap w' (brk w) = Some tbl" and len: "length tbl = 3"
    and n: "n_hwmon (txgbe_hwmon_buff a') = 3"
    and p: "hwmon_list (txgbe_hwmon_buff a') = Some (brk w)"
    and pre: "take (n_hwmon (txgbe_hwmon_buff a')) tbl = map (\<lambda>(ty, rc). attr_of e ty) (filter (\<lambda>(ty, rc). rc = 0) ?h)"
    by (auto simp: tab_inv_def populate_types_def)
  from pre n len have tbl: "tbl = map (attr_of e) populate_types"
    by (simp add: populate_types_def)
  have dv: "device (txgbe_hwmon_buff a') = ?d"
    using fr by (simp add: frame_inv_def)
  have trc: "filter is_create (trace w') = filter is_create (trace w) @
       [Device_create_file ''temp0_input'' 0, Device_create_file ''temp0_alarmthresh'' 0,
        Device_create_file ''temp0_dalarmthresh'' 0]"
    using tr w3 by (simp add: trace_inv_def populate_types_def nm)
  have fl2: "files w' =
       filter (\<lambda>x. x \<notin> {''temp0_input'', ''temp0_alarmthresh'', ''temp0_dalarmthresh''}) (files w) @
       [''temp0_input'', ''temp0_alarmthresh'', ''temp0_dalarmthresh'']"
    unfolding fl by (rule files_after_all_created [OF assms(7)])
  have names: "map name tbl = [''temp0_input'', ''temp0_alarmthresh'', ''temp0_dalarmthresh'']"
    and shw: "map show_ptr tbl = [Some Show_temp, Some Show_alarmthresh, Some Show_dalarmthresh]"
    by (simp_all add: tbl populate_types_def nm)
  have nz': "device (txgbe_hwmon_buff a') \<noteq> 0"
    using dv nz by simp
  show ?thesis
    by (intro exI [of _ a'] exI [of _ w'] exI [of _ tbl] conjI)
      (rule res n dv nz' p t names shw fl2 trc)+
qed

theorem txgbe_sysfs_init_active_witness:
  "fst (init_thermal_sensor_thresh ex_env (hw ex_adapter)) = 0 \<and>
   \<not> next_kcalloc_fails ex_world \<and>
   \<not> IS_ERR_OR_NULL (fst (txgbe_hwmon_device_register ex_env ex_world)) \<and>
   create_ret_at ex_world 0 = 0 \<and> create_ret_at ex_world 1 = 0 \<and> create_ret_at ex_world 2 = 0 \<and>
   19 \<le> name_size ex_env \<and>
   (\<exists>a' w'. txgbe_sysfs_init ex_env (Some ex_adapter) ex_world = Inr (0, Some a', w') \<and>
      n_hwmon (txgbe_hwmon_buff a') = 3 \<and> device (txgbe_hwmon_buff a') = 4096 \<and>
      files w' = [''uevent'', ''temp0_input'', ''temp0_alarmthresh'', ''temp0_dalarmthresh''] \<and>
      filter is_create (trace w') =
        [Device_create_file ''temp0_input'' 0, Device_create_file ''temp0_alarmthresh'' 0,
         Device_create_file ''temp0_dalarmthresh'' 0])"
proof -
  have h1: "fst (init_thermal_sensor_thresh ex_env (hw ex_adapter)) = 0"
    by (simp add: ex_env_def)
  have h2: "\<not> next_kcalloc_fails ex_world"
    by (simp add: next_kcalloc_fails_def ex_world_def)
  have r: "fst (txgbe_hwmon_device_register ex_env ex_world) = 4096"
    using ex_register [of "create_rets ex_world"] by simp
  have h3: "\<not> IS_ERR_OR_NULL (fst (txgbe_hwmon_device_register ex_env ex_world))"
    by (simp add: r IS_ERR_OR_NULL_def IS_ERR_def MAX_ERRNO_def)
  have c: "create_ret_at ex_world 0 = 0" "create_ret_at ex_world 1 = 0" "create_ret_at ex_world 2 = 0"
    by (simp_all add: create_ret_at_def ex_world_def)
  have h7: "19 \<le> name_size ex_env"
    by (simp add: ex_env_def)
  have w: "files ex_world = [''temp0_input'', ''uevent'']" "trace ex_world = []"
    by (simp_all add: ex_world_def)
  from txgbe_sysfs_init_active [OF h1 h2 h3 c h7] obtain a' w' where
    "txgbe_sysfs_init ex_env (Some ex_adapter) ex_world = Inr (0, Some a', w')"
    "n_hwmon (txgbe_hwmon_buff a') = 3" "device (txgbe_hwmon_buff a') = 4096"
    "files w' = [''uevent'', ''temp0_input'', ''temp0_alarmthresh'', ''temp0_dalarmthresh'']"
    "filter is_create (trace w') =
        [Device_create_file ''temp0_input'' 0, Device_create_file ''temp0_alarmthresh'' 0,
         Device_create_file ''temp0_dalarmthresh'' 0]"
    by (auto simp: w r)
  with h1 h2 h3 c h7 show ?thesis
    by (intro conjI exI [of _ a'] exI [of _ w'])
qed

text \<open>
  C4.  Once Populate is reached (sensor reported, table allocated, hwmon device handed
  out), all three registration attempts are made, in the order temp, alarmthresh,
  dalarmthresh, whatever the earlier ones returned: the trace holds the removal and the
  creation for each of the three names with the three return codes.  The value returned by
  \<open>txgbe_sysfs_init\<close> is the bitwise OR of the three codes; it is 0 exactly when all three are
  0, in which case nothing follows the third attempt and the count is 3; otherwise the
  teardown runs (the table is freed, the count is 0).
\<close>

theorem txgbe_sysfs_init_or_of_results:
  assumes "fst (init_thermal_sensor_thresh e (hw a)) = 0"
    and "\<not> next_kcalloc_fails w"
    and "\<not> IS_ERR (fst (txgbe_hwmon_device_register e w))"
  shows "\<exists>rc a' w' pre post. txgbe_sysfs_init e (Some a) w = Inr (rc, Some a', w') \<and>
     rc = (create_ret_at w 0 OR create_ret_at w 1) OR create_ret_at w 2 \<and>
     trace w' = trace w @ pre @
       attempt_events (attr_names e ! 0) (create_ret_at w 0) @
       attempt_events (attr_names e ! 1) (create_ret_at w 1) @
       attempt_events (attr_names e ! 2) (create_ret_at w 2) @ post \<and>
     filter is_create pre = [] \<and> filter is_create post = [] \<and>
     (rc = 0 \<longleftrightarrow> create_ret_at w 0 = 0 \<and> create_ret_at w 1 = 0 \<and> create_ret_at w 2 = 0) \<and>
     (rc = 0 \<longrightarrow> post = [] \<and> n_hwmon (txgbe_hwmon_buff a') = 3 \<and>
        hwmon_list (txgbe_hwmon_buff a') = Some (brk w)) \<and>
     (rc \<noteq> 0 \<longrightarrow> Kfree (brk w) \<in> set post \<and> n_hwmon (txgbe_hwmon_buff a') = 0 \<and>
        hwmon_list (txgbe_hwmon_buff a') = None)"
proof -
  let ?d = "fst (txgbe_hwmon_device_register e w)"
  let ?f0 = "create_ret_at w 0" and ?f1 = "create_ret_at w 1" and ?f2 = "create_ret_at w 2"
  let ?h = "zip populate_types [?f0, ?f1, ?f2]"
  let ?rc = "(?f0 OR ?f1) OR ?f2"
  let ?att = "attempt_events (attr_names e ! 0) ?f0 @ attempt_events (attr_names e ! 1) ?f1 @
       attempt_events (attr_names e ! 2) ?f2"
  obtain h1 where i: "init_thermal_sensor_thresh e (hw a) = (0, h1)"
    using assms(1) by (cases "init_thermal_sensor_thresh e (hw a)") simp
  obtain w3 evs a' w' where
    "heap w3 = (heap w)(brk w \<mapsto> replicate 3 zero_attr)" "hwmon_devs w3 = ?d # hwmon_devs w"
    and w3: "trace w3 = trace w @ Tcall_init_thermal_sensor_thresh # Kcalloc (Some (brk w)) # evs"
      "filter is_create evs = []"
    and tab: "tab_inv e (brk w) 3 ?h a' w'"
    and fr: "frame_inv (populate_start h1 ?d (brk w)) w3 (brk w) a' w'"
    and fi: "files_inv e (files w) ?h w'"
    and tr: "trace_inv e (trace w3) ?h w'"
    and fl: "files w' = files_after e (files w) ?h"
    and res: "txgbe_sysfs_init e (Some a) w =
       (if ?rc \<noteq> 0 then Inr (?rc, Some (torn_down a'), teardown_world a' w') else Inr (0, Some a', w'))"
    by (rule init_populate_outcome [OF i assms(2) refl assms(3)])
  let ?pre = "Tcall_init_thermal_sensor_thresh # Kcalloc (Some (brk w)) # evs"
  have pre: "filter is_create ?pre = []"
    using w3(2) by simp
  have tw: "trace w' = trace w @ ?pre @ ?att"
    using tr w3(1) by (simp add: trace_inv_def populate_types_def attr_names_nth)
  have p: "hwmon_list (txgbe_hwmon_buff a') = Some (brk w)"
    using tab by (simp add: tab_inv_def)
  show ?thesis
  proof (cases "?rc = 0")
    case True
    then have z: "?f0 = 0" "?f1 = 0" "?f2 = 0"
      by (simp_all add: or3_eq_0)
    have n: "n_hwmon (txgbe_hwmon_buff a') = 3"
      using tab unfolding z by (simp add: tab_inv_def populate_types_def)
    have r: "txgbe_sysfs_init e (Some a) w = Inr (?rc, Some a', w')"
      using res True by simp
    have t: "trace w' = trace w @ ?pre @ ?att @ []"
      using tw by simp
    show ?thesis
      by (intro exI [of _ ?rc] exI [of _ a'] exI [of _ w'] exI [of _ ?pre] exI [of _ "[]"] conjI)
        (use r t pre True n p z in simp_all)
  next
    case False
    let ?post = "map (\<lambda>d. Device_remove_file (name d)) (live_attrs a' w') @ [Kfree (brk w)] @
        (if IS_ERR_OR_NULL (device (txgbe_hwmon_buff a')) then []
         else [Hwmon_device_unregister (device (txgbe_hwmon_buff a'))])"
    have r: "txgbe_sysfs_init e (Some a) w = Inr (?rc, Some (torn_down a'), teardown_world a' w')"
      using res False by simp
    have t: "trace (teardown_world a' w') = trace w @ ?pre @ ?att @ ?post"
      using tw p by (simp add: teardown_world_def)
    have post: "filter is_create ?post = []"
      by (simp add: filter_empty_conv)
    have nz: "\<not> (?f0 = 0 \<and> ?f1 = 0 \<and> ?f2 = 0)"
      using False by (simp add: or3_eq_0)
    show ?thesis
      by (intro exI [of _ ?rc] exI [of _ "torn_down a'"] exI [of _ "teardown_world a' w'"]
          exI [of _ ?pre] exI [of _ ?post] conjI)
        (use r t pre post False nz in simp_all)
  qed
qed

theorem txgbe_sysfs_init_or_of_results_witness:
  "fst (init_thermal_sensor_thresh ex_env (hw ex_adapter)) = 0 \<and>
   \<not> next_kcalloc_fails ex_world_fail \<and>
   \<not> IS_ERR (fst (txgbe_hwmon_device_register ex_env ex_world_fail)) \<and>
   (create_ret_at ex_world_fail 0 OR create_ret_at ex_world_fail 1) OR create_ret_at ex_world_fail 2 = - 12 \<and>
   attempt_events (attr_names ex_env ! 1) (create_ret_at ex_world_fail 1) =
     [Device_remove_file ''temp0_alarmthresh'', Device_create_file ''temp0_alarmthresh'' (- 12),
      E_dev_warn ''temp0_alarmthresh'' (- 12)] \<and>
   (\<exists>rc a' w' pre post.
      txgbe_sysfs_init ex_env (Some ex_adapter) ex_world_fail = Inr (rc, Some a', w') \<and>
      rc = (create_ret_at ex_world_fail 0 OR create_ret_at ex_world_fail 1) OR create_ret_at ex_world_fail 2 \<and>
      trace w' = trace ex_world_fail @ pre @
        attempt_events (attr_names ex_env ! 0) (create_ret_at ex_world_fail 0) @
        attempt_events (attr_names ex_env ! 1) (create_ret_at ex_world_fail 1) @
        attempt_events (attr_names ex_env ! 2) (create_ret_at ex_world_fail 2) @ post \<and>
      filter is_create pre = [] \<and> filter is_create post = [] \<and>
      (rc = 0 \<longleftrightarrow> create_ret_at ex_world_fail 0 = 0 \<and> create_ret_at ex_world_fail 1 = 0 \<and>
         create_ret_at ex_world_fail 2 = 0) \<and>
      (rc = 0 \<longrightarrow> post = [] \<and> n_hwmon (txgbe_hwmon_buff a') = 3 \<and>
         hwmon_list (txgbe_hwmon_buff a') = Some (brk ex_world_fail)) \<and>
      (rc \<noteq> 0 \<longrightarrow> Kfree (brk ex_world_fail) \<in> set post \<and> n_hwmon (txgbe_hwmon_buff a') = 0 \<and>
         hwmon_list (txgbe_hwmon_buff a') = None))"
proof -
  have h1: "fst (init_thermal_sensor_thresh ex_env (hw ex_adapter)) = 0"
    by (simp add: ex_env_def)
  have h2: "\<not> next_kcalloc_fails ex_world_fail"
    by (simp add: next_kcalloc_fails_def ex_world_fail_def ex_world_def)
  have h3: "\<not> IS_ERR (fst (txgbe_hwmon_device_register ex_env ex_world_fail))"
    by (simp add: ex_world_fail_def ex_register IS_ERR_def MAX_ERRNO_def)
  have c: "create_ret_at ex_world_fail 0 = 0" "create_ret_at ex_world_fail 1 = - 12"
    "create_ret_at ex_world_fail 2 = 0"
    by (simp_all add: create_ret_at_def ex_world_fail_def)
  have rc: "(create_ret_at ex_world_fail 0 OR create_ret_at ex_world_fail 1) OR
      create_ret_at ex_world_fail 2 = - 12"
    unfolding c by simp
  have ev: "attempt_events (attr_names ex_env ! 1) (create_ret_at ex_world_fail 1) =
     [Device_remove_file ''temp0_alarmthresh'', Device_create_file ''temp0_alarmthresh'' (- 12),
      E_dev_warn ''temp0_alarmthresh'' (- 12)]"
    unfolding c by (simp add: ex_attr_names attempt_events_def)
  show ?thesis
    by (intro conjI h1 h2 h3 rc ev txgbe_sysfs_init_or_of_results [OF h1 h2 h3])
qed

section \<open>Initialisation and exit are safe\<close>

lemma registry_ok_null:
  "hwmon_list (txgbe_hwmon_buff a) = None \<Longrightarrow> device (txgbe_hwmon_buff a) = 0 \<Longrightarrow> registry_ok a w"
  by (simp add: registry_ok_def IS_ERR_OR_NULL_def)

lemma registry_ok_empty_table:
  "hwmon_list (txgbe_hwmon_buff a) = Some p \<Longrightarrow> heap w p = Some tbl \<Longrightarrow>
   n_hwmon (txgbe_hwmon_buff a) = 0 \<Longrightarrow> device (txgbe_hwmon_buff a) = 0 \<Longrightarrow> registry_ok a w"
  by (simp add: registry_ok_def IS_ERR_OR_NULL_def)

text \<open>
  \<open>txgbe_sysfs_init\<close> and \<open>txgbe_sysfs_exit\<close> are safe and keep the registry's pointers good:
  from an adapter whose registry is good (a freshly allocated, zeroed adapter is), every
  path of the initialisation returns without a fault and leaves a good registry, so the
  teardown can always run on what the initialisation left.
\<close>

lemma txgbe_sysfs_init_safe:
  assumes ok: "registry_ok a w"
  shows "\<exists>rc a' w'. txgbe_sysfs_init e (Some a) w = Inr (rc, Some a', w') \<and> registry_ok a' w'"
proof -
  obtain r h1 where i: "init_thermal_sensor_thresh e (hw a) = (r, h1)"
    by (cases "init_thermal_sensor_thresh e (hw a)")
  let ?w1 = "emit Tcall_init_thermal_sensor_thresh w"
  let ?a2 = "set_n_hwmon 0 (set_device 0 (a\<lparr>hw := h1\<rparr>))"
  show ?thesis
  proof (cases "r = 0")
    case False
    have "registry_ok (a\<lparr>hw := h1\<rparr>) ?w1"
      using ok by (auto simp: registry_ok_def emit_def split: option.splits)
    with False show ?thesis
      by (simp add: txgbe_sysfs_init_def i)
  next
    case r0: True
    show ?thesis
    proof (cases "next_kcalloc_fails w")
      case True
      let ?w2 = "emit (Kcalloc None) (?w1\<lparr>kcalloc_fails := tl (kcalloc_fails ?w1)\<rparr>)"
      have kc: "kcalloc 3 ?w1 = (None, ?w2)"
        using True by (simp add: kcalloc_def emit_def next_kcalloc_fails_def Let_def)
      have rok: "registry_ok (set_hwmon_list None ?a2) ?w2"
        by (rule registry_ok_null) simp_all
      show ?thesis
        by (simp add: txgbe_sysfs_init_def i r0 kc sysfs_init_err_def del_adapter_ok [OF rok])
    next
      case k: False
      let ?d = "fst (txgbe_hwmon_device_register e w)"
      show ?thesis
      proof (cases "IS_ERR ?d")
        case err: True
        let ?w2 = "emit (Kcalloc (Some (brk w)))
          (w\<lparr>trace := trace w @ [Tcall_init_thermal_sensor_thresh], kcalloc_fails := tl (kcalloc_fails w),
             heap := (heap w)(brk w \<mapsto> replicate 3 zero_attr), brk := Suc (brk w)\<rparr>)"
        have kc: "kcalloc 3 ?w1 = (Some (brk w), ?w2)"
          using k by (simp add: kcalloc_def emit_def next_kcalloc_fails_def Let_def)
        obtain d' w3 where reg: "txgbe_hwmon_device_register e ?w2 = (d', w3)"
          by (cases "txgbe_hwmon_device_register e ?w2")
        have "fst (txgbe_hwmon_device_register e ?w2) = ?d"
          by (rule txgbe_hwmon_device_register_indep) (simp add: emit_def)
        with reg have dd: "d' = ?d"
          by simp
        from txgbe_hwmon_device_register_effect [OF reg] have hp: "heap w3 = heap ?w2"
          by (simp add: reg_effect_def)
        let ?a5 = "set_device 0 (set_device ?d (set_hwmon_list (Some (brk w)) ?a2))"
        have rok: "registry_ok ?a5 w3"
          by (rule registry_ok_empty_table [where p = "brk w" and tbl = "replicate 3 zero_attr"])
            (simp_all add: hp emit_def)
        show ?thesis
          using err
          by (simp add: txgbe_sysfs_init_def i r0 kc reg dd sysfs_init_err_def
              del_adapter_ok [OF rok] del: fun_upd_apply)
      next
        case noerr: False
        let ?h = "zip populate_types [create_ret_at w 0, create_ret_at w 1, create_ret_at w 2]"
        let ?rc = "(create_ret_at w 0 OR create_ret_at w 1) OR create_ret_at w 2"
        from i r0 have i0: "init_thermal_sensor_thresh e (hw a) = (0, h1)"
          by simp
        obtain w3 evs a' w' where
          w3: "heap w3 = (heap w)(brk w \<mapsto> replicate 3 zero_attr)" "hwmon_devs w3 = ?d # hwmon_devs w"
          and tr3: "trace w3 = trace w @ Tcall_init_thermal_sensor_thresh # Kcalloc (Some (brk w)) # evs"
            "filter is_create evs = []"
          and tab: "tab_inv e (brk w) 3 ?h a' w'"
          and fr: "frame_inv (populate_start h1 ?d (brk w)) w3 (brk w) a' w'"
          and fi: "files_inv e (files w) ?h w'"
          and tr: "trace_inv e (trace w3) ?h w'"
          and fl: "files w' = files_after e (files w) ?h"
          and res: "txgbe_sysfs_init e (Some a) w =
             (if ?rc \<noteq> 0 then Inr (?rc, Some (torn_down a'), teardown_world a' w') else Inr (0, Some a', w'))"
          by (rule init_populate_outcome [OF i0 k refl noerr])
        have dev: "device (txgbe_hwmon_buff a') \<in> set (hwmon_devs w')"
          using fr by (simp add: frame_inv_def w3(2))
        have rok: "registry_ok a' w'"
          using tab dev by (blast intro: registry_ok_tab_inv)
        show ?thesis
          using res rok by (cases "?rc = 0") simp_all
      qed
    qed
  qed
qed

lemma txgbe_sysfs_exit_safe:
  assumes "registry_ok a w"
  shows "\<exists>a' w'. txgbe_sysfs_exit (Some a) w = Inr (Some a', w') \<and> registry_ok a' w'"
  using assms by (simp add: txgbe_sysfs_exit_def del_adapter_ok)

section \<open>Exit\<close>

lemma torn_down_id:
  "n_hwmon (txgbe_hwmon_buff a) = 0 \<Longrightarrow> device (txgbe_hwmon_buff a) = 0 \<Longrightarrow>
   hwmon_list (txgbe_hwmon_buff a) = None \<Longrightarrow> torn_down a = a \<and> teardown_world a w = w"
  by (cases a; cases "txgbe_hwmon_buff a")
    (simp add: torn_down_def teardown_world_def live_attrs_def IS_ERR_OR_NULL_def)

text \<open>
  C6.  \<open>txgbe_sysfs_exit\<close> on an adapter whose registry pointers are good (null, or the
  live table and the registered device, which is how \<open>txgbe_sysfs_init\<close> and
  \<open>txgbe_sysfs_exit\<close> leave them) returns without a fault and leaves count 0, device
  null and table pointer null; a second call right after it returns without a fault too
  and changes nothing.  On an adapter that was never initialised (count 0, both pointers
  null) the first call already changes nothing, and on a null adapter it returns at once.
\<close>

theorem txgbe_sysfs_exit_idempotent:
  assumes "registry_ok a w"
  shows "\<exists>a1 w1. txgbe_sysfs_exit (Some a) w = Inr (Some a1, w1) \<and>
     n_hwmon (txgbe_hwmon_buff a1) = 0 \<and> device (txgbe_hwmon_buff a1) = 0 \<and>
     hwmon_list (txgbe_hwmon_buff a1) = None \<and>
     txgbe_sysfs_exit (Some a1) w1 = Inr (Some a1, w1) \<and>
     txgbe_sysfs_exit None w = Inr (None, w) \<and>
     (n_hwmon (txgbe_hwmon_buff a) = 0 \<and> device (txgbe_hwmon_buff a) = 0 \<and>
      hwmon_list (txgbe_hwmon_buff a) = None \<longrightarrow> a1 = a \<and> w1 = w)"
proof -
  have 1: "txgbe_sysfs_exit (Some a) w = Inr (Some (torn_down a), teardown_world a w)"
    using assms by (simp add: txgbe_sysfs_exit_def del_adapter_ok)
  have 2: "txgbe_sysfs_exit (Some (torn_down a)) (teardown_world a w) =
      Inr (Some (torn_down a), teardown_world a w)"
    by (simp add: txgbe_sysfs_exit_def del_adapter_ok)
  have 3: "txgbe_sysfs_exit None w = Inr (None, w)"
    by (simp add: txgbe_sysfs_exit_def txgbe_sysfs_del_adapter_def)
  show ?thesis
    by (intro exI [of _ "torn_down a"] exI [of _ "teardown_world a w"] conjI 1 2 3)
      (simp_all add: torn_down_id)
qed

lemma ex_registry_ok: "registry_ok ex_adapter_active ex_world_active"
  by (simp add: registry_ok_def ex_adapter_active_def ex_world_active_def populate_types_def
      attr_name_attr_of)

theorem txgbe_sysfs_exit_idempotent_witness:
  "registry_ok ex_adapter_active ex_world_active \<and>
   (\<exists>a1 w1. txgbe_sysfs_exit (Some ex_adapter_active) ex_world_active = Inr (Some a1, w1) \<and>
      n_hwmon (txgbe_hwmon_buff a1) = 0 \<and> device (txgbe_hwmon_buff a1) = 0 \<and>
      hwmon_list (txgbe_hwmon_buff a1) = None \<and>
      txgbe_sysfs_exit (Some a1) w1 = Inr (Some a1, w1)) \<and>
   registry_ok ex_adapter ex_world \<and>
   txgbe_sysfs_exit (Some ex_adapter) ex_world = Inr (Some ex_adapter, ex_world)"
proof -
  have z: "n_hwmon (txgbe_hwmon_buff ex_adapter) = 0 \<and> device (txgbe_hwmon_buff ex_adapter) = 0 \<and>
      hwmon_list (txgbe_hwmon_buff ex_adapter) = None"
    by (simp add: ex_adapter_def)
  have ok0: "registry_ok ex_adapter ex_world"
    by (simp add: registry_ok_def ex_adapter_def IS_ERR_OR_NULL_def)
  from txgbe_sysfs_exit_idempotent [OF ok0] z
  have never: "txgbe_sysfs_exit (Some ex_adapter) ex_world = Inr (Some ex_adapter, ex_world)"
    by auto
  from txgbe_sysfs_exit_idempotent [OF ex_registry_ok]
  have act: "\<exists>a1 w1. txgbe_sysfs_exit (Some ex_adapter_active) ex_world_active = Inr (Some a1, w1) \<and>
      n_hwmon (txgbe_hwmon_buff a1) = 0 \<and> device (txgbe_hwmon_buff a1) = 0 \<and>
      hwmon_list (txgbe_hwmon_buff a1) = None \<and>
      txgbe_sysfs_exit (Some a1) w1 = Inr (Some a1, w1)"
    by blast
  show ?thesis
    by (intro conjI ex_registry_ok act ok0 never)
qed

section \<open>The removal before the creation\<close>

text \<open>
  C8.  A call of \<open>txgbe_add_hwmon_attr\<close> for one of the three types, on a live table with
  a free slot, removes the file of that name and then creates it: the two calls are
  adjacent in the trace, in this order, whatever the creation returns.  The value returned
  is the creation's own result and never the duplicate-name error, also when a file of
  that name was there before the call (where creating without the removal would have
  returned \<open>- EEXIST\<close>); when the creation fails the file of that name is gone all the same.
\<close>

theorem txgbe_add_hwmon_attr_removes_first:
  assumes "known ty"
    and "hwmon_list (txgbe_hwmon_buff a) = Some p"
    and "heap w p = Some tbl"
    and "n_hwmon (txgbe_hwmon_buff a) < length tbl"
  shows "\<exists>a' w'. txgbe_add_hwmon_attr e a ty w = Inr (create_ret_at w 0, a', w') \<and>
     trace w' = trace w @
       [Device_remove_file (name (attr_of e ty)),
        Device_create_file (name (attr_of e ty)) (create_ret_at w 0)] @
       (if create_ret_at w 0 \<noteq> 0 then [E_dev_warn (name (attr_of e ty)) (create_ret_at w 0)] else []) \<and>
     files w' = removeAll (name (attr_of e ty)) (files w) @
       (if create_ret_at w 0 = 0 then [name (attr_of e ty)] else []) \<and>
     (create_ret_at w 0 \<noteq> 0 \<longrightarrow> name (attr_of e ty) \<notin> set (files w')) \<and>
     (name (attr_of e ty) \<in> set (files w) \<and> create_ret_at w 0 = 0 \<longrightarrow>
        (\<exists>w2. device_create_file (attr_of e ty) w = Inr (- EEXIST, w2)))"
  by (simp add: add_step [OF assms] attempt_events_def device_create_file_def
      attr_name_attr_of [OF assms(1)] Let_def EEXIST_def)

theorem txgbe_add_hwmon_attr_removes_first_witness:
  "known TXGBE_HWMON_TYPE_TEMP \<and>
   hwmon_list (txgbe_hwmon_buff ex_adapter_table) = Some 1 \<and>
   heap ex_world_table 1 = Some (replicate 3 zero_attr) \<and>
   n_hwmon (txgbe_hwmon_buff ex_adapter_table) < length (replicate 3 zero_attr) \<and>
   name (attr_of ex_env TXGBE_HWMON_TYPE_TEMP) \<in> set (files ex_world_table) \<and>
   create_ret_at ex_world_table 0 = 0 \<and>
   (\<exists>a' w'. txgbe_add_hwmon_attr ex_env ex_adapter_table TXGBE_HWMON_TYPE_TEMP ex_world_table =
        Inr (0, a', w') \<and>
      trace w' = [Device_remove_file ''temp0_input'', Device_create_file ''temp0_input'' 0] \<and>
      files w' = [''uevent'', ''temp0_input'']) \<and>
   (\<exists>w2. device_create_file (attr_of ex_env TXGBE_HWMON_TYPE_TEMP) ex_world_table = Inr (- EEXIST, w2))"
proof -
  have h1: "known TXGBE_HWMON_TYPE_TEMP"
    by simp
  have h2: "hwmon_list (txgbe_hwmon_buff ex_adapter_table) = Some 1"
    by (simp add: ex_adapter_table_def)
  have h3: "heap ex_world_table 1 = Some (replicate 3 zero_attr)"
    by (simp add: ex_world_table_def)
  have h4: "n_hwmon (txgbe_hwmon_buff ex_adapter_table) < length (replicate 3 zero_attr)"
    by (simp add: ex_adapter_table_def)
  have nm: "name (attr_of ex_env TXGBE_HWMON_TYPE_TEMP) = ''temp0_input''"
    by (simp add: attr_of_name_full ex_env_def)
  have w: "files ex_world_table = [''temp0_input'', ''uevent'']" "trace ex_world_table = []"
    by (simp_all add: ex_world_table_def)
  have st: "name (attr_of ex_env TXGBE_HWMON_TYPE_TEMP) \<in> set (files ex_world_table)"
    by (simp add: nm w)
  have c: "create_ret_at ex_world_table 0 = 0"
    by (simp add: create_ret_at_def ex_world_table_def)
  note t = txgbe_add_hwmon_attr_removes_first [OF h1 h2 h3 h4, of ex_env]
  from t have r1: "\<exists>a' w'. txgbe_add_hwmon_attr ex_env ex_adapter_table TXGBE_HWMON_TYPE_TEMP ex_world_table =
        Inr (0, a', w') \<and>
      trace w' = [Device_remove_file ''temp0_input'', Device_create_file ''temp0_input'' 0] \<and>
      files w' = [''uevent'', ''temp0_input'']"
    by (simp add: c nm w) (elim exE conjE, intro exI conjI, assumption+)
  from t st c have r2: "\<exists>w2. device_create_file (attr_of ex_env TXGBE_HWMON_TYPE_TEMP) ex_world_table = Inr (- EEXIST, w2)"
    by blast
  show ?thesis
    by (intro conjI h1 h2 h3 h4 st c r1 r2)
qed

section \<open>The live prefix of the table\<close>

lemma length_filter_zip:
  "length tys = length rcs \<Longrightarrow>
   length (filter (\<lambda>(ty, rc). rc = 0) (zip tys rcs)) = length (filter (\<lambda>rc. rc = (0::int)) rcs)"
  by (induction tys rcs rule: list_induct2) simp_all

lemma tried_zip:
  "length tys = length rcs \<Longrightarrow>
   tried e (zip tys rcs) = (\<lambda>ty. name (attr_of e ty)) ` {ty \<in> set tys. known ty}"
proof (induction tys rcs rule: list_induct2)
  case Nil
  show ?case by (simp add: tried_def)
next
  case (Cons ty tys rc rcs)
  have "tried e (zip (ty # tys) (rc # rcs)) =
      (if known ty then insert (name (attr_of e ty)) (tried e (zip tys rcs)) else tried e (zip tys rcs))"
    by (auto simp: tried_def)
  with Cons.IH show ?case
    by auto
qed

lemma created_map:
  "map (\<lambda>(ty, rc). attr_of e ty) (filter (\<lambda>(ty, rc). rc = 0) (zip tys rcs)) =
   map (attr_of e) (created tys rcs)"
  by (simp add: created_def case_prod_unfold comp_def)

lemma oracle_inv_known:
  assumes inv: "oracle_inv C0 (zip tys rcs) w'" and len: "length rcs = length tys"
    and kn: "\<forall>ty \<in> set tys. known ty"
  shows "rcs = map (\<lambda>i. if i < length C0 then C0 ! i else 0) [0..<length tys]"
proof -
  have f: "filter (\<lambda>(ty, rc). known ty) (zip tys rcs) = zip tys rcs"
    using kn by (auto simp: filter_id_conv dest: set_zip_leftD)
  from inv have "map snd (zip tys rcs) =
      map (\<lambda>i. if i < length C0 then C0 ! i else 0) [0..<length (zip tys rcs)]"
    by (simp add: oracle_inv_def f)
  then show ?thesis
    using len by simp
qed

lemma made_set:
  "set (map name (map (\<lambda>(ty, rc). attr_of e ty) (filter (\<lambda>(ty, rc). rc = 0) h))) = made e h"
  by (force simp: made_def)

lemma files_after_snoc:
  "files_after e F0 (h @ [(ty, rc)]) =
     (if known ty
      then removeAll (name (attr_of e ty)) (files_after e F0 h) @ (if rc = 0 then [name (attr_of e ty)] else [])
      else files_after e F0 h)"
  by (simp add: files_after_def)

lemma tried_known_names: "tried e h = set (known_names e (map fst h))"
  by (force simp: tried_def known_names_def)

lemma filter_insert_removeAll:
  "filter (\<lambda>x. x \<in> insert n A) (removeAll n fs) = removeAll n (filter (\<lambda>x. x \<in> A) fs)"
  by (induction fs) auto

lemma files_after_live:
  assumes "\<forall>(ty, rc) \<in> set h. rc = 0 \<longrightarrow> known ty"
    and "distinct (known_names e (map fst h))"
  shows "filter (\<lambda>x. x \<in> tried e h) (files_after e F0 h) =
     map (\<lambda>(ty, rc). name (attr_of e ty)) (filter (\<lambda>(ty, rc). rc = 0) h)"
  using assms
proof (induction h rule: rev_induct)
  case Nil
  show ?case by (simp add: tried_def files_after_def)
next
  case (snoc x h)
  obtain ty rc where x: "x = (ty, rc)" by (cases x)
  from snoc.prems have kn: "\<forall>(ty, rc) \<in> set h. rc = 0 \<longrightarrow> known ty"
    and k0: "rc = 0 \<longrightarrow> known ty"
    by (auto simp: x)
  show ?case
  proof (cases "known ty")
    case False
    with snoc.prems(2) have d: "distinct (known_names e (map fst h))"
      by (simp add: x known_names_def)
    from False k0 have "rc \<noteq> 0" by blast
    with False snoc.IH [OF kn d] show ?thesis
      by (simp add: x files_after_snoc tried_snoc)
  next
    case True
    let ?nm = "name (attr_of e ty)"
    from True snoc.prems(2) have d: "distinct (known_names e (map fst h))"
      and nin: "?nm \<notin> set (known_names e (map fst h))"
      by (simp_all add: x known_names_def)
    note ih = snoc.IH [OF kn d]
    have sub: "made e h \<subseteq> tried e h"
      using kn by (rule made_subset_tried)
    have nin': "?nm \<notin> set (map (\<lambda>(ty, rc). name (attr_of e ty)) (filter (\<lambda>(ty, rc). rc = 0) h))"
      using nin sub unfolding tried_known_names [symmetric] made_def by force
    have "filter (\<lambda>x. x \<in> insert ?nm (tried e h)) (removeAll ?nm (files_after e F0 h)) =
        removeAll ?nm (filter (\<lambda>x. x \<in> tried e h) (files_after e F0 h))"
      by (rule filter_insert_removeAll)
    also have "\<dots> = map (\<lambda>(ty, rc). name (attr_of e ty)) (filter (\<lambda>(ty, rc). rc = 0) h)"
      unfolding ih using nin' by (simp add: removeAll_id)
    finally show ?thesis
      using True by (simp add: x files_after_snoc tried_snoc)
  qed
qed

lemma known_names_populate:
  assumes "8 \<le> name_size e"
  shows "distinct (known_names e (take k populate_types))"
proof -
  have t: "take 7 (name (attr_of e TXGBE_HWMON_TYPE_TEMP)) = ''temp0_i''"
    "take 7 (name (attr_of e TXGBE_HWMON_TYPE_ALARMTHRESH)) = ''temp0_a''"
    "take 7 (name (attr_of e TXGBE_HWMON_TYPE_DALARMTHRESH)) = ''temp0_d''"
    using assms by (simp_all add: attr_of_def fill_attr_def Let_def snprintf_temp_u_def dec_0 min_def)
  have ne: "name (attr_of e TXGBE_HWMON_TYPE_TEMP) \<noteq> name (attr_of e TXGBE_HWMON_TYPE_ALARMTHRESH)"
    "name (attr_of e TXGBE_HWMON_TYPE_TEMP) \<noteq> name (attr_of e TXGBE_HWMON_TYPE_DALARMTHRESH)"
    "name (attr_of e TXGBE_HWMON_TYPE_ALARMTHRESH) \<noteq> name (attr_of e TXGBE_HWMON_TYPE_DALARMTHRESH)"
    using t by auto
  have "distinct (known_names e populate_types)"
    using ne by (simp add: known_names_def populate_types_def known_def)
  moreover have "known_names e (take k populate_types) = take k (known_names e populate_types)"
  proof -
    have a: "\<forall>ty \<in> set populate_types. known ty"
      by (simp add: populate_types_def known_def)
    then have "\<forall>ty \<in> set (take k populate_types). known ty"
      by (meson in_set_takeD)
    with a show ?thesis
      by (simp add: known_names_def take_map)
  qed
  ultimately show ?thesis
    by (simp add: distinct_take)
qed


text \<open>
  C9.  \<open>txgbe_add_hwmon_attr\<close> is static, and its only calls are the three of lines 306 to
  308, made on a table of three slots with the count at 0 (lines 287 to 291).  So take a live
  table of three slots and a count of 0.  A run of at most three calls returns.  After any
  run that returns: the count is the number of calls that returned 0 and is at most 3; the
  first \<open>n_hwmon\<close> slots hold exactly the descriptors of the calls whose file creation
  succeeded, in the order of the calls (the slot of a failed attempt is written again by the
  next attempt); for the three known types the return codes are those of the file
  creations; the files under other names are as before the run; every file that exists under
  a name of the run is named by one of the first \<open>n_hwmon\<close> slots; and when the names of
  the run differ from each other, as those of the three calls of \<open>txgbe_sysfs_init\<close> do
  (\<open>known_names_populate\<close>), the files that exist under the names of the run are exactly
  the names of the first \<open>n_hwmon\<close> slots, each once and in the order of the slots.  The
  loop of the teardown over these slots removes the files named by the slots and nothing
  else, and leaves no file under a name of the run.
\<close>

theorem add_seq_live_prefix:
  assumes "hwmon_list (txgbe_hwmon_buff a) = Some p"
    and "heap w p = Some tbl"
    and "length tbl = 3"
    and "n_hwmon (txgbe_hwmon_buff a) = 0"
  shows "(length tys \<le> 3 \<longrightarrow> (\<exists>rcs a' w'. add_seq e tys a w = Inr (rcs, a', w'))) \<and>
    (\<forall>rcs a' w'. add_seq e tys a w = Inr (rcs, a', w') \<longrightarrow>
       length rcs = length tys \<and>
       ((\<forall>ty \<in> set tys. known ty) \<longrightarrow> rcs = map (create_ret_at w) [0..<length tys]) \<and>
       n_hwmon (txgbe_hwmon_buff a') = length (filter (\<lambda>rc. rc = 0) rcs) \<and>
       n_hwmon (txgbe_hwmon_buff a') \<le> 3 \<and>
       filter (\<lambda>x. x \<notin> set (known_names e tys)) (files w') =
         filter (\<lambda>x. x \<notin> set (known_names e tys)) (files w) \<and>
       (\<exists>tbl' w''. heap w' p = Some tbl' \<and> length tbl' = 3 \<and>
          take (n_hwmon (txgbe_hwmon_buff a')) tbl' = map (attr_of e) (created tys rcs) \<and>
          (\<forall>x \<in> set (files w'). x \<in> set (known_names e tys) \<longrightarrow>
             x \<in> set (map name (take (n_hwmon (txgbe_hwmon_buff a')) tbl'))) \<and>
          (distinct (known_names e tys) \<longrightarrow>
             filter (\<lambda>x. x \<in> set (known_names e tys)) (files w') =
               map name (take (n_hwmon (txgbe_hwmon_buff a')) tbl')) \<and>
          del_loop tbl' 0 (n_hwmon (txgbe_hwmon_buff a')) w' = Inr w'' \<and>
          files w'' =
            filter (\<lambda>x. x \<notin> set (map name (take (n_hwmon (txgbe_hwmon_buff a')) tbl'))) (files w') \<and>
          files w'' = filter (\<lambda>x. x \<notin> set (known_names e tys)) (files w)))"
proof (intro conjI impI allI)
  assume "length tys \<le> 3"
  then have "\<exists>r. add_seq e tys a w = Inr r"
    using assms by (intro add_seq_no_fault [of a p w tbl]) simp_all
  then show "\<exists>rcs a' w'. add_seq e tys a w = Inr (rcs, a', w')"
    by (metis prod_cases3)
next
  fix rcs a' w'
  assume run: "add_seq e tys a w = Inr (rcs, a', w')"
  note f = add_seq_facts [OF run assms(1) assms(2) assms(4)]
  let ?h = "zip tys rcs"
  let ?n = "n_hwmon (txgbe_hwmon_buff a')"
  let ?A = "set (known_names e tys)"
  from f(1) have len: "length tys = length rcs"
    by simp
  then have fst: "map fst ?h = tys"
    by simp
  have tr: "tried e ?h = ?A"
    by (simp only: tried_known_names fst)
  show "length rcs = length tys"
    by (rule f(1))
  from f(2) obtain tbl' where t': "heap w' p = Some tbl'" and l': "length tbl' = 3"
    and n: "?n = length (filter (\<lambda>(ty, rc). rc = 0) ?h)" and le: "?n \<le> 3"
    and kn: "\<forall>(ty, rc) \<in> set ?h. rc = 0 \<longrightarrow> known ty"
    and pre: "take ?n tbl' = map (\<lambda>(ty, rc). attr_of e ty) (filter (\<lambda>(ty, rc). rc = 0) ?h)"
    by (auto simp: tab_inv_def assms(3))
  show "?n = length (filter (\<lambda>rc. rc = 0) rcs)"
    using n by (simp add: length_filter_zip [OF len])
  show "?n \<le> 3"
    by (rule le)
  show "rcs = map (create_ret_at w) [0..<length tys]" if "\<forall>ty \<in> set tys. known ty"
  proof -
    from f(6) f(1) that
    have "rcs = map (\<lambda>i. if i < length (create_rets w) then create_rets w ! i else 0)
        [0..<length tys]"
      by (rule oracle_inv_known)
    then show ?thesis
      by (simp add: create_ret_at_def [abs_def])
  qed
  from f(4) have fr: "filter (\<lambda>x. x \<notin> tried e ?h) (files w') = filter (\<lambda>x. x \<notin> tried e ?h) (files w)"
    and sub: "\<forall>x \<in> set (files w'). x \<in> tried e ?h \<longrightarrow> x \<in> made e ?h"
    by (simp_all add: files_inv_def)
  show "filter (\<lambda>x. x \<notin> ?A) (files w') = filter (\<lambda>x. x \<notin> ?A) (files w)"
    using fr unfolding tr .
  have nm: "\<forall>d \<in> set (drop 0 (take ?n tbl')). attr_name d = Some (name d)"
    unfolding pre using kn by (auto simp: attr_name_attr_of)
  have le': "?n \<le> length tbl'"
    using le l' by simp
  let ?w'' = "w'\<lparr>files := filter (\<lambda>x. x \<notin> set (map name (drop 0 (take ?n tbl')))) (files w'),
            trace := trace w' @ map (\<lambda>d. Device_remove_file (name d)) (drop 0 (take ?n tbl'))\<rparr>"
  have dl: "del_loop tbl' 0 ?n w' = Inr ?w''"
    using le' nm by (rule del_loop_ok)
  have ms: "set (map name (take ?n tbl')) = made e ?h"
    unfolding pre by (rule made_set)
  have ex: "\<forall>x \<in> set (files w'). x \<in> ?A \<longrightarrow> x \<in> set (map name (take ?n tbl'))"
    using sub unfolding tr ms .
  have eq: "filter (\<lambda>x. x \<in> ?A) (files w') = map name (take ?n tbl')" if d: "distinct (known_names e tys)"
  proof -
    from d have d': "distinct (known_names e (map fst ?h))"
      by (simp only: fst)
    have "files w' = files_after e (files w) ?h"
      using run assms(1) assms(2) assms(4) by (rule add_seq_files_exact)
    then have "filter (\<lambda>x. x \<in> tried e ?h) (files w') =
        map (\<lambda>(ty, rc). name (attr_of e ty)) (filter (\<lambda>(ty, rc). rc = 0) ?h)"
      by (simp only: files_after_live [OF kn d'])
    also have "\<dots> = map name (take ?n tbl')"
      unfolding pre by (simp add: case_prod_unfold comp_def)
    finally show ?thesis
      unfolding tr .
  qed
  have f1: "files ?w'' = filter (\<lambda>x. x \<notin> set (map name (take ?n tbl'))) (files w')"
    by simp
  then have "files ?w'' = filter (\<lambda>x. x \<notin> made e ?h) (files w')"
    by (simp only: ms)
  also have "\<dots> = filter (\<lambda>x. x \<notin> tried e ?h) (files w)"
    using f(4) kn by (rule files_inv_teardown)
  finally have fl: "files ?w'' = filter (\<lambda>x. x \<notin> ?A) (files w)"
    unfolding tr .
  have pre': "take ?n tbl' = map (attr_of e) (created tys rcs)"
    unfolding pre by (rule created_map)
  show "\<exists>tbl' w''. heap w' p = Some tbl' \<and> length tbl' = 3 \<and>
          take ?n tbl' = map (attr_of e) (created tys rcs) \<and>
          (\<forall>x \<in> set (files w'). x \<in> ?A \<longrightarrow> x \<in> set (map name (take ?n tbl'))) \<and>
          (distinct (known_names e tys) \<longrightarrow>
             filter (\<lambda>x. x \<in> ?A) (files w') = map name (take ?n tbl')) \<and>
          del_loop tbl' 0 ?n w' = Inr w'' \<and>
          files w'' = filter (\<lambda>x. x \<notin> set (map name (take ?n tbl'))) (files w') \<and>
          files w'' = filter (\<lambda>x. x \<notin> ?A) (files w)"
    using eq by (intro exI [of _ tbl'] exI [of _ ?w''] conjI t' l' pre' ex dl f1 fl impI)
qed

theorem add_seq_live_prefix_witness:
  "hwmon_list (txgbe_hwmon_buff ex_adapter_table) = Some 1 \<and>
   heap ex_world_table_fail 1 = Some (replicate 3 zero_attr) \<and>
   length (replicate 3 zero_attr) = 3 \<and>
   n_hwmon (txgbe_hwmon_buff ex_adapter_table) = 0 \<and>
   length populate_types \<le> 3 \<and>
   known_names ex_env populate_types = [''temp0_input'', ''temp0_alarmthresh'', ''temp0_dalarmthresh''] \<and>
   distinct (known_names ex_env populate_types) \<and>
   files ex_world_table_fail = [''temp0_input'', ''uevent''] \<and>
   (\<exists>a' w' tbl' w''.
      add_seq ex_env populate_types ex_adapter_table ex_world_table_fail = Inr ([0, - 12, 0], a', w') \<and>
      n_hwmon (txgbe_hwmon_buff a') = 2 \<and> heap w' 1 = Some tbl' \<and>
      take 2 tbl' = [attr_of ex_env TXGBE_HWMON_TYPE_TEMP, attr_of ex_env TXGBE_HWMON_TYPE_DALARMTHRESH] \<and>
      files w' = [''uevent'', ''temp0_input'', ''temp0_dalarmthresh''] \<and>
      filter (\<lambda>x. x \<in> set (known_names ex_env populate_types)) (files w') =
        [''temp0_input'', ''temp0_dalarmthresh''] \<and>
      map name (take 2 tbl') = [''temp0_input'', ''temp0_dalarmthresh''] \<and>
      del_loop tbl' 0 2 w' = Inr w'' \<and> files w'' = [''uevent''])"
proof -
  have h1: "hwmon_list (txgbe_hwmon_buff ex_adapter_table) = Some 1"
    by (simp add: ex_adapter_table_def)
  have h2: "heap ex_world_table_fail 1 = Some (replicate 3 zero_attr)"
    by (simp add: ex_world_table_fail_def ex_world_table_def)
  have h3: "length (replicate 3 zero_attr) = 3"
    by simp
  have h4: "n_hwmon (txgbe_hwmon_buff ex_adapter_table) = 0"
    by (simp add: ex_adapter_table_def)
  have h5: "length populate_types \<le> 3"
    by (simp add: populate_types_def)
  have kn: "\<forall>ty \<in> set populate_types. known ty"
    by (simp add: populate_types_def known_def)
  have nms: "known_names ex_env populate_types =
      [''temp0_input'', ''temp0_alarmthresh'', ''temp0_dalarmthresh'']"
    by (simp add: known_names_def populate_types_def known_def attr_of_name_full ex_env_def)
  have dis: "distinct (known_names ex_env populate_types)"
    by (simp add: nms)
  have fs: "files ex_world_table_fail = [''temp0_input'', ''uevent'']"
    by (simp add: ex_world_table_fail_def ex_world_table_def)
  note T = add_seq_live_prefix [OF h1 h2 h3 h4, of populate_types ex_env]
  from T h5 obtain rcs a' w' where
    run: "add_seq ex_env populate_types ex_adapter_table ex_world_table_fail = Inr (rcs, a', w')"
    by blast
  note F = T [THEN conjunct2, rule_format, OF run]
  from F kn have "rcs = map (create_ret_at ex_world_table_fail) [0..<length populate_types]"
    by blast
  then have rcs: "rcs = [0, - 12, 0]"
    by (simp add: populate_types_def create_ret_at_def ex_world_table_fail_def upt_rec [of 0]
        upt_rec [of 1] upt_rec [of 2] numeral_2_eq_2 numeral_3_eq_3)
  have cr: "created populate_types [0, - 12, 0] =
      [TXGBE_HWMON_TYPE_TEMP, TXGBE_HWMON_TYPE_DALARMTHRESH]"
    by (simp add: created_def populate_types_def)
  from F have n: "n_hwmon (txgbe_hwmon_buff a') = 2"
    by (simp add: rcs)
  from F have oth: "filter (\<lambda>x. x \<notin> set (known_names ex_env populate_types)) (files w') =
      filter (\<lambda>x. x \<notin> set (known_names ex_env populate_types)) (files ex_world_table_fail)"
    by blast
  from F obtain tbl' w'' where
    "heap w' 1 = Some tbl'"
    "take (n_hwmon (txgbe_hwmon_buff a')) tbl' = map (attr_of ex_env) (created populate_types rcs)"
    "distinct (known_names ex_env populate_types) \<longrightarrow>
       filter (\<lambda>x. x \<in> set (known_names ex_env populate_types)) (files w') =
         map name (take (n_hwmon (txgbe_hwmon_buff a')) tbl')"
    "del_loop tbl' 0 (n_hwmon (txgbe_hwmon_buff a')) w' = Inr w''"
    "files w'' = filter (\<lambda>x. x \<notin> set (known_names ex_env populate_types)) (files ex_world_table_fail)"
    by blast
  with dis have G0: "heap w' 1 = Some tbl'"
    "take 2 tbl' = [attr_of ex_env TXGBE_HWMON_TYPE_TEMP, attr_of ex_env TXGBE_HWMON_TYPE_DALARMTHRESH]"
    "filter (\<lambda>x. x \<in> set (known_names ex_env populate_types)) (files w') = map name (take 2 tbl')"
    "del_loop tbl' 0 2 w' = Inr w''"
    "files w'' = filter (\<lambda>x. x \<notin> set (known_names ex_env populate_types)) (files ex_world_table_fail)"
    unfolding n rcs cr by simp_all
  have mn: "map name (take 2 tbl') = [''temp0_input'', ''temp0_dalarmthresh'']"
    unfolding G0(2) by (simp add: attr_of_name_full ex_env_def)
  have live: "filter (\<lambda>x. x \<in> set (known_names ex_env populate_types)) (files w') =
      [''temp0_input'', ''temp0_dalarmthresh'']"
    using G0(3) mn by simp
  have gone: "files w'' = [''uevent'']"
    unfolding G0(5) by (simp add: nms fs)
  have "case add_seq ex_env populate_types ex_adapter_table ex_world_table_fail of
      Inl x \<Rightarrow> False
    | Inr (r, a1, w1) \<Rightarrow> files w1 = [''uevent'', ''temp0_input'', ''temp0_dalarmthresh'']"
    by (simp add: populate_types_def txgbe_add_hwmon_attr_def Let_def ex_adapter_table_def
        ex_world_table_fail_def ex_world_table_def device_remove_file_def device_create_file_def
        create_ret_at_def emit_def fill_attr_def set_n_hwmon_def ex_env_def snprintf_temp_u_def
        dec_0)
  then have fw: "files w' = [''uevent'', ''temp0_input'', ''temp0_dalarmthresh'']"
    by (simp add: run)
  have run': "add_seq ex_env populate_types ex_adapter_table ex_world_table_fail = Inr ([0, - 12, 0], a', w')"
    using run rcs by simp
  show ?thesis
    by (intro conjI h1 h2 h3 h4 h5 nms dis fs exI [of _ a'] exI [of _ w'] exI [of _ tbl']
        exI [of _ w''] run' n G0(1) G0(2) fw live mn G0(4) gone)
qed

end
